theory Spec2Isabelle
  imports Main "HOL-Library.Word"
begin

section \<open>Array assignment (array\_assign\_array.c)\<close>

text \<open>
  A shallow embedding of \<^verbatim>\<open>numpy/core/src/multiarray/array_assign_array.c\<close>:
  the three raw transfer routines and \<^verbatim>\<open>PyArray_AssignArray\<close>.

  Pointers (\<^verbatim>\<open>char *\<close>) are integer byte addresses, \<open>0\<close> being \<^verbatim>\<open>NULL\<close>;
  \<^verbatim>\<open>npy_intp\<close> is \<open>int\<close> (signed overflow is undefined in C and is not modelled).
  Memory is a function from addresses to bytes. The Python error indicator is a field of
  the state, set where the source calls \<^verbatim>\<open>PyErr_SetString\<close>; a function returns the
  C return code together with the new state. Calls of collaborators that the file only
  uses (transfer-function resolvers, the raw-iterator preparers, allocation) are recorded
  in a log, in the order in which the source makes them.
\<close>

subsection \<open>Data model\<close>

type_synonym byte = "8 word"
type_synonym addr = int
type_synonym heap = "addr \<Rightarrow> byte"

datatype error =
    ShapeMismatch | ReadOnlyTarget | UnsafeCast | NotImplemented | UnsupportedNA
  | AllocationFailure | TransferFailure | IterationSetupError

datatype NPY_CASTING =
    NPY_NO_CASTING | NPY_EQUIV_CASTING | NPY_SAFE_CASTING
  | NPY_SAME_KIND_CASTING | NPY_UNSAFE_CASTING

text \<open>A dtype descriptor is a heap object: \<open>descr_obj\<close> is its address, which is what
  the source compares when it compares two \<^verbatim>\<open>PyArray_Descr *\<close>.\<close>

record PyArray_Descr =
  descr_obj :: nat
  elsize :: int
  alignment :: int

text \<open>The fields of \<^verbatim>\<open>PyArrayObject\<close> that the file reads, each named by the macro
  that reads it. \<open>array_obj\<close> is the address of the object itself; the rank
  (\<^verbatim>\<open>PyArray_NDIM\<close>) is the length of the dimensions.\<close>

record PyArrayObject =
  array_obj :: nat
  PyArray_DATA :: addr
  PyArray_DIMS :: "int list"
  PyArray_STRIDES :: "int list"
  PyArray_DESCR :: PyArray_Descr
  PyArray_ISWRITEABLE :: bool
  PyArray_HASMASKNA :: bool
  PyArray_MASKNA_DTYPE :: PyArray_Descr
  PyArray_MASKNA_DATA :: addr
  PyArray_MASKNA_STRIDES :: "int list"

definition PyArray_NDIM :: "PyArrayObject \<Rightarrow> int" where
  "PyArray_NDIM arr = int (length (PyArray_DIMS arr))"

datatype event =
    EvGetDTypeTransfer bool int int
  | EvGetMaskedDTypeTransfer bool int int int
  | EvGetMaskAnd int int
  | EvTransfer addr int addr int int int
  | EvMaskedTransfer addr int addr int addr int int int
  | EvMaskAnd addr int addr int addr int int
  | EvMalloc int
  | EvFree addr
  | EvNewLikeArray nat
  | EvDecref nat

record world =
  heap :: heap
  pyerr :: "error option"
  log :: "event list"

definition PyErr_Set :: "error \<Rightarrow> world \<Rightarrow> world" where
  "PyErr_Set e w = w\<lparr>pyerr := Some e\<rparr>"

definition emit :: "event \<Rightarrow> world \<Rightarrow> world" where
  "emit ev w = w\<lparr>log := log w @ [ev]\<rparr>"

subsection \<open>Collaborators of the raw routines\<close>

text \<open>
  A prepared raw iteration has at least one dimension: entry 0 of a shape or stride
  vector (the innermost dimension, \<^verbatim>\<open>shape_it[0]\<close>) and the entries from 1 on.
\<close>

type_synonym dimvec = "int \<times> int list"

text \<open>The transfer callables: \<^verbatim>\<open>(dst, dst_stride, src, src_stride, N, src_itemsize)\<close>,
  the masked one with \<^verbatim>\<open>(mask, mask_stride)\<close> before \<^verbatim>\<open>N\<close>; their auxiliary data is
  part of the callable. A callable may raise a Python error.\<close>

type_synonym PyArray_StridedUnaryOp =
  "heap \<Rightarrow> addr \<Rightarrow> int \<Rightarrow> addr \<Rightarrow> int \<Rightarrow> int \<Rightarrow> int \<Rightarrow> heap \<times> error option"

type_synonym PyArray_MaskedStridedUnaryOp =
  "heap \<Rightarrow> addr \<Rightarrow> int \<Rightarrow> addr \<Rightarrow> int \<Rightarrow> addr \<Rightarrow> int \<Rightarrow> int \<Rightarrow> int \<Rightarrow> heap \<times> error option"

type_synonym PyArray_StridedBinaryOp =
  "heap \<Rightarrow> addr \<Rightarrow> int \<Rightarrow> addr \<Rightarrow> int \<Rightarrow> addr \<Rightarrow> int \<Rightarrow> int \<Rightarrow> heap"

text \<open>
  The functions, macros and the constant that the raw routines use and that live in other
  files of the repository (\<^verbatim>\<open>lowlevel_strided_loops.h\<close>, \<^verbatim>\<open>array_assign.h\<close>,
  \<^verbatim>\<open>common.h\<close>) are parameters of the model. A preparer returns \<open>None\<close> where the C function
  returns a negative value; a resolver returns \<open>Inl\<close> of the error it raised.
\<close>

record raw_env =
  raw_array_is_aligned :: "int \<Rightarrow> addr \<Rightarrow> int list \<Rightarrow> int \<Rightarrow> bool"
  PyArray_PrepareTwoRawArrayIter ::
    "int \<Rightarrow> int list \<Rightarrow> addr \<Rightarrow> int list \<Rightarrow> addr \<Rightarrow> int list
      \<Rightarrow> (dimvec \<times> (addr \<times> dimvec) \<times> (addr \<times> dimvec)) option"
  PyArray_PrepareThreeRawArrayIter ::
    "int \<Rightarrow> int list \<Rightarrow> addr \<Rightarrow> int list \<Rightarrow> addr \<Rightarrow> int list \<Rightarrow> addr \<Rightarrow> int list
      \<Rightarrow> (dimvec \<times> (addr \<times> dimvec) \<times> (addr \<times> dimvec) \<times> (addr \<times> dimvec)) option"
  PyArray_PrepareFourRawArrayIter ::
    "int \<Rightarrow> int list \<Rightarrow> addr \<Rightarrow> int list \<Rightarrow> addr \<Rightarrow> int list \<Rightarrow> addr \<Rightarrow> int list
      \<Rightarrow> addr \<Rightarrow> int list
      \<Rightarrow> (dimvec \<times> (addr \<times> dimvec) \<times> (addr \<times> dimvec) \<times> (addr \<times> dimvec) \<times> (addr \<times> dimvec)) option"
  PyArray_GetDTypeTransferFunction ::
    "bool \<Rightarrow> int \<Rightarrow> int \<Rightarrow> PyArray_Descr \<Rightarrow> PyArray_Descr
      \<Rightarrow> error + (PyArray_StridedUnaryOp \<times> bool)"
  PyArray_GetMaskedDTypeTransferFunction ::
    "bool \<Rightarrow> int \<Rightarrow> int \<Rightarrow> int \<Rightarrow> PyArray_Descr \<Rightarrow> PyArray_Descr \<Rightarrow> PyArray_Descr
      \<Rightarrow> error + (PyArray_MaskedStridedUnaryOp \<times> bool)"
  PyArray_GetMaskAndFunction ::
    "int \<Rightarrow> PyArray_Descr \<Rightarrow> int \<Rightarrow> int \<Rightarrow> PyArray_Descr \<Rightarrow> int
      \<Rightarrow> error + PyArray_StridedBinaryOp"
  PyArray_malloc :: "int \<Rightarrow> addr"
  NPY_ARRAY_ASSIGN_BUFFERSIZE :: int

definition call_stransfer ::
  "PyArray_StridedUnaryOp \<Rightarrow> addr \<Rightarrow> int \<Rightarrow> addr \<Rightarrow> int \<Rightarrow> int \<Rightarrow> int \<Rightarrow> world \<Rightarrow> world" where
  "call_stransfer f dst dst_stride src src_stride n src_itemsize w =
     (case f (heap w) dst dst_stride src src_stride n src_itemsize of
        (h, e) \<Rightarrow>
          w\<lparr>heap := h,
            pyerr := (case e of None \<Rightarrow> pyerr w | Some x \<Rightarrow> Some x),
            log := log w @ [EvTransfer dst dst_stride src src_stride n src_itemsize]\<rparr>)"

definition call_masked_stransfer ::
  "PyArray_MaskedStridedUnaryOp \<Rightarrow> addr \<Rightarrow> int \<Rightarrow> addr \<Rightarrow> int \<Rightarrow> addr \<Rightarrow> int \<Rightarrow> int \<Rightarrow> int
     \<Rightarrow> world \<Rightarrow> world" where
  "call_masked_stransfer f dst dst_stride src src_stride msk msk_stride n src_itemsize w =
     (case f (heap w) dst dst_stride src src_stride msk msk_stride n src_itemsize of
        (h, e) \<Rightarrow>
          w\<lparr>heap := h,
            pyerr := (case e of None \<Rightarrow> pyerr w | Some x \<Rightarrow> Some x),
            log := log w @
              [EvMaskedTransfer dst dst_stride src src_stride msk msk_stride n src_itemsize]\<rparr>)"

definition call_maskand ::
  "PyArray_StridedBinaryOp \<Rightarrow> addr \<Rightarrow> int \<Rightarrow> addr \<Rightarrow> int \<Rightarrow> addr \<Rightarrow> int \<Rightarrow> int
     \<Rightarrow> world \<Rightarrow> world" where
  "call_maskand f dst dst_stride src0 stride0 src1 stride1 n w =
     w\<lparr>heap := f (heap w) dst dst_stride src0 stride0 src1 stride1 n,
       log := log w @ [EvMaskAnd dst dst_stride src0 stride0 src1 stride1 n]\<rparr>"

subsection \<open>Raw iteration\<close>

text \<open>
  Modelled from the spec: the macros \<^verbatim>\<open>NPY_RAW_ITER_START\<close> and
  \<^verbatim>\<open>NPY_RAW_ITER_TWO_NEXT\<close> (\<^verbatim>\<open>_THREE_\<close>, \<^verbatim>\<open>_FOUR_\<close>) of
  \<^verbatim>\<open>lowlevel_strided_loops.h\<close>, which are not in this file. The body runs once per
  coordinate of the dimensions 1 to \<open>ndim - 1\<close> ("looping over outer dimensions"),
  dimension 1 varying fastest, with every data pointer moved by the coordinate times its
  strides.
\<close>

fun coords :: "int list \<Rightarrow> int list list" where
  "coords [] = [[]]"
| "coords (n # ns) = concat (map (\<lambda>cs. map (\<lambda>c. c # cs) [0..n - 1]) (coords ns))"

definition dot :: "int list \<Rightarrow> int list \<Rightarrow> int" where
  "dot cs ss = sum_list (map2 (*) cs ss)"

definition it_ndim :: "dimvec \<Rightarrow> int" where
  "it_ndim shape_it = 1 + int (length (snd shape_it))"

definition neg0 :: "dimvec \<Rightarrow> dimvec" where
  "neg0 v = (- fst v, snd v)"

subsection \<open>raw\_array\_assign\_array\<close>

definition raw_array_assign_array ::
  "raw_env \<Rightarrow> world \<Rightarrow> int \<Rightarrow> int list \<Rightarrow> PyArray_Descr \<Rightarrow> addr \<Rightarrow> int list
     \<Rightarrow> PyArray_Descr \<Rightarrow> addr \<Rightarrow> int list \<Rightarrow> int \<times> world" where
  "raw_array_assign_array E w ndim shape dst_dtype dst_data dst_strides
                          src_dtype src_data src_strides =
    (let src_itemsize = elsize src_dtype;
         aligned = (raw_array_is_aligned E ndim dst_data dst_strides (alignment dst_dtype) \<and>
                    raw_array_is_aligned E ndim src_data src_strides (alignment src_dtype))
     in case PyArray_PrepareTwoRawArrayIter E ndim shape dst_data dst_strides
                                               src_data src_strides of
          None \<Rightarrow> (-1, PyErr_Set IterationSetupError w)
        | Some (shape_it, (dst_data, dst_strides_it), (src_data, src_strides_it)) \<Rightarrow>
           (let ndim = it_ndim shape_it;
                overlap = (ndim = 1 \<and> src_data < dst_data \<and>
                           src_data + fst shape_it * fst src_strides_it > dst_data);
                src_data' = (if overlap then src_data + (fst shape_it - 1) * fst src_strides_it
                             else src_data);
                dst_data' = (if overlap then dst_data + (fst shape_it - 1) * fst dst_strides_it
                             else dst_data);
                src_strides_it' = (if overlap then neg0 src_strides_it else src_strides_it);
                dst_strides_it' = (if overlap then neg0 dst_strides_it else dst_strides_it);
                w1 = emit (EvGetDTypeTransfer aligned (fst src_strides_it')
                                              (fst dst_strides_it')) w
            in case PyArray_GetDTypeTransferFunction E aligned
                      (fst src_strides_it') (fst dst_strides_it') src_dtype dst_dtype of
                 Inl e \<Rightarrow> (-1, PyErr_Set e w1)
               | Inr (stransfer, needs_api) \<Rightarrow>
                  (let w2 = fold (\<lambda>coord.
                                   call_stransfer stransfer
                                     (dst_data' + dot coord (snd dst_strides_it'))
                                     (fst dst_strides_it')
                                     (src_data' + dot coord (snd src_strides_it'))
                                     (fst src_strides_it')
                                     (fst shape_it) src_itemsize)
                                 (coords (snd shape_it)) w1
                   in (if needs_api \<and> pyerr w2 \<noteq> None then -1 else 0, w2))))"

subsection \<open>raw\_array\_wheremasked\_assign\_array\<close>

definition raw_array_wheremasked_assign_array ::
  "raw_env \<Rightarrow> world \<Rightarrow> int \<Rightarrow> int list \<Rightarrow> PyArray_Descr \<Rightarrow> addr \<Rightarrow> int list
     \<Rightarrow> PyArray_Descr \<Rightarrow> addr \<Rightarrow> int list
     \<Rightarrow> PyArray_Descr \<Rightarrow> addr \<Rightarrow> int list \<Rightarrow> int \<times> world" where
  "raw_array_wheremasked_assign_array E w ndim shape dst_dtype dst_data dst_strides
                          src_dtype src_data src_strides
                          wheremask_dtype wheremask_data wheremask_strides =
    (let src_itemsize = elsize src_dtype;
         aligned = (raw_array_is_aligned E ndim dst_data dst_strides (alignment dst_dtype) \<and>
                    raw_array_is_aligned E ndim src_data src_strides (alignment src_dtype))
     in case PyArray_PrepareThreeRawArrayIter E ndim shape dst_data dst_strides
                src_data src_strides wheremask_data wheremask_strides of
          None \<Rightarrow> (-1, PyErr_Set IterationSetupError w)
        | Some (shape_it, (dst_data, dst_strides_it), (src_data, src_strides_it),
                (wheremask_data, wheremask_strides_it)) \<Rightarrow>
           (let ndim = it_ndim shape_it;
                overlap = (ndim = 1 \<and> src_data < dst_data \<and>
                           src_data + fst shape_it * fst src_strides_it > dst_data);
                src_data' = (if overlap then src_data + (fst shape_it - 1) * fst src_strides_it
                             else src_data);
                dst_data' = (if overlap then dst_data + (fst shape_it - 1) * fst dst_strides_it
                             else dst_data);
                wheremask_data' =
                  (if overlap then wheremask_data + (fst shape_it - 1) * fst wheremask_strides_it
                   else wheremask_data);
                src_strides_it' = (if overlap then neg0 src_strides_it else src_strides_it);
                dst_strides_it' = (if overlap then neg0 dst_strides_it else dst_strides_it);
                wheremask_strides_it' =
                  (if overlap then neg0 wheremask_strides_it else wheremask_strides_it);
                w1 = emit (EvGetMaskedDTypeTransfer aligned (fst src_strides_it')
                             (fst dst_strides_it') (fst wheremask_strides_it')) w
            in case PyArray_GetMaskedDTypeTransferFunction E aligned
                      (fst src_strides_it') (fst dst_strides_it') (fst wheremask_strides_it')
                      src_dtype dst_dtype wheremask_dtype of
                 Inl e \<Rightarrow> (-1, PyErr_Set e w1)
               | Inr (stransfer, needs_api) \<Rightarrow>
                  (let w2 = fold (\<lambda>coord.
                                   call_masked_stransfer stransfer
                                     (dst_data' + dot coord (snd dst_strides_it'))
                                     (fst dst_strides_it')
                                     (src_data' + dot coord (snd src_strides_it'))
                                     (fst src_strides_it')
                                     (wheremask_data' + dot coord (snd wheremask_strides_it'))
                                     (fst wheremask_strides_it')
                                     (fst shape_it) src_itemsize)
                                 (coords (snd shape_it)) w1
                   in (if needs_api \<and> pyerr w2 \<noteq> None then -1 else 0, w2))))"

subsection \<open>raw\_array\_wheremasked\_assign\_array\_preservena\<close>

text \<open>
  The \<^verbatim>\<open>do ... while (count > 0)\<close> loop that processes one innermost run "a buffer size
  at a time". With a buffer size that is not positive the loop of the source does not end;
  the model then has no result (\<open>None\<close>).
\<close>

record chunk_ctx =
  c_buffersize :: int
  c_maskand :: PyArray_StridedBinaryOp
  c_stransfer :: PyArray_MaskedStridedUnaryOp
  c_buffer :: addr
  c_maskna_itemsize :: int
  c_src_itemsize :: int
  c_dst_stride :: int
  c_src_stride :: int
  c_maskna_stride :: int
  c_wheremask_stride :: int

text \<open>The loop variables \<^verbatim>\<open>(dst_d, src_d, maskna_d, wheremask_d, count)\<close>.\<close>

type_synonym chunk_vars = "addr \<times> addr \<times> addr \<times> addr \<times> int"

text \<open>One pass through the loop body: the chunk size, the mask combination into the
  buffer, the transfer under the buffered mask, and the advance of the pointers.\<close>

definition chunk_body :: "chunk_ctx \<Rightarrow> chunk_vars \<Rightarrow> world \<Rightarrow> chunk_vars \<times> world" where
  "chunk_body C v w =
     (case v of (dst_d, src_d, maskna_d, wheremask_d, count) \<Rightarrow>
        (let buffered_count = (if count < c_buffersize C then count else c_buffersize C);
             w1 = call_maskand (c_maskand C) (c_buffer C) (c_maskna_itemsize C)
                    maskna_d (c_maskna_stride C) wheremask_d (c_wheremask_stride C)
                    buffered_count w;
             w2 = call_masked_stransfer (c_stransfer C) dst_d (c_dst_stride C) src_d (c_src_stride C)
                    (c_buffer C) (c_maskna_itemsize C) buffered_count (c_src_itemsize C) w1
         in ((dst_d + buffered_count * c_dst_stride C,
              src_d + buffered_count * c_src_stride C,
              maskna_d + buffered_count * c_maskna_stride C,
              wheremask_d + buffered_count * c_wheremask_stride C,
              count - buffered_count), w2)))"

partial_function (option) preservena_chunks ::
  "chunk_ctx \<Rightarrow> chunk_vars \<Rightarrow> world \<Rightarrow> world option" where
  "preservena_chunks C v w =
     (case chunk_body C v w of
        (v', w') \<Rightarrow>
          if snd (snd (snd (snd v'))) > 0 then preservena_chunks C v' w' else Some w')"

declare preservena_chunks.simps [code]

text \<open>\<^verbatim>\<open>src_strides[0]\<close> of the caller's stride vector. For a 0-dimensional call the vector
  has no entry and the source reads an indeterminate value, which is \<open>0\<close> here.\<close>

definition entry0 :: "int list \<Rightarrow> int" where
  "entry0 xs = (case xs of [] \<Rightarrow> 0 | x # _ \<Rightarrow> x)"

definition raw_array_wheremasked_assign_array_preservena ::
  "raw_env \<Rightarrow> world \<Rightarrow> int \<Rightarrow> int list \<Rightarrow> PyArray_Descr \<Rightarrow> addr \<Rightarrow> int list
     \<Rightarrow> PyArray_Descr \<Rightarrow> addr \<Rightarrow> int list
     \<Rightarrow> PyArray_Descr \<Rightarrow> addr \<Rightarrow> int list
     \<Rightarrow> PyArray_Descr \<Rightarrow> addr \<Rightarrow> int list \<Rightarrow> (int \<times> world) option" where
  "raw_array_wheremasked_assign_array_preservena E w ndim shape
                          dst_dtype dst_data dst_strides
                          src_dtype src_data src_strides
                          maskna_dtype maskna_data maskna_strides
                          wheremask_dtype wheremask_data wheremask_strides =
    (let src_itemsize = elsize src_dtype;
         aligned = (raw_array_is_aligned E ndim dst_data dst_strides (alignment dst_dtype) \<and>
                    raw_array_is_aligned E ndim src_data src_strides (alignment src_dtype))
     in case PyArray_PrepareFourRawArrayIter E ndim shape dst_data dst_strides
                src_data src_strides maskna_data maskna_strides
                wheremask_data wheremask_strides of
          None \<Rightarrow> Some (-1, PyErr_Set IterationSetupError w)
        | Some (shape_it, (dst_data, dst_strides_it), (src_data, src_strides_it),
                (maskna_data, maskna_strides_it), (wheremask_data, wheremask_strides_it)) \<Rightarrow>
           (let ndim = it_ndim shape_it;
                maskna_itemsize = elsize maskna_dtype;
                maskna_buffer = PyArray_malloc E (NPY_ARRAY_ASSIGN_BUFFERSIZE E * maskna_itemsize);
                w0 = emit (EvMalloc (NPY_ARRAY_ASSIGN_BUFFERSIZE E * maskna_itemsize)) w
            in if maskna_buffer = 0 then Some (-1, PyErr_Set AllocationFailure w0)
               else
           (let overlap = (ndim = 1 \<and> src_data < dst_data \<and>
                           src_data + fst shape_it * fst src_strides_it > dst_data);
                src_data' = (if overlap then src_data + (fst shape_it - 1) * fst src_strides_it
                             else src_data);
                dst_data' = (if overlap then dst_data + (fst shape_it - 1) * fst dst_strides_it
                             else dst_data);
                maskna_data' =
                  (if overlap then maskna_data + (fst shape_it - 1) * fst maskna_strides_it
                   else maskna_data);
                wheremask_data' =
                  (if overlap then wheremask_data + (fst shape_it - 1) * fst wheremask_strides_it
                   else wheremask_data);
                src_strides_it' = (if overlap then neg0 src_strides_it else src_strides_it);
                dst_strides_it' = (if overlap then neg0 dst_strides_it else dst_strides_it);
                maskna_strides_it' =
                  (if overlap then neg0 maskna_strides_it else maskna_strides_it);
                wheremask_strides_it' =
                  (if overlap then neg0 wheremask_strides_it else wheremask_strides_it);
                w1 = emit (EvGetMaskedDTypeTransfer aligned (entry0 src_strides)
                             (fst dst_strides_it') maskna_itemsize) w0
            in case PyArray_GetMaskedDTypeTransferFunction E aligned
                      (entry0 src_strides) (fst dst_strides_it') maskna_itemsize
                      src_dtype dst_dtype maskna_dtype of
                 Inl e \<Rightarrow> Some (-1, emit (EvFree maskna_buffer) (PyErr_Set e w1))
               | Inr (stransfer, needs_api) \<Rightarrow>
                  (let w2 = emit (EvGetMaskAnd (fst maskna_strides_it')
                                    (fst wheremask_strides_it')) w1
                   in case PyArray_GetMaskAndFunction E
                             (fst maskna_strides_it') maskna_dtype 0
                             (fst wheremask_strides_it') wheremask_dtype 0 of
                        Inl e \<Rightarrow> Some (-1, emit (EvFree maskna_buffer) (PyErr_Set e w2))
                      | Inr maskand_stransfer \<Rightarrow>
                         (case fold (\<lambda>coord wo.
                                  Option.bind wo
                                    (preservena_chunks
                                       \<lparr> c_buffersize = NPY_ARRAY_ASSIGN_BUFFERSIZE E,
                                         c_maskand = maskand_stransfer,
                                         c_stransfer = stransfer,
                                         c_buffer = maskna_buffer,
                                         c_maskna_itemsize = maskna_itemsize,
                                         c_src_itemsize = src_itemsize,
                                         c_dst_stride = fst dst_strides_it',
                                         c_src_stride = fst src_strides_it',
                                         c_maskna_stride = fst maskna_strides_it',
                                         c_wheremask_stride = fst wheremask_strides_it' \<rparr>
                                       (dst_data' + dot coord (snd dst_strides_it'),
                                        src_data' + dot coord (snd src_strides_it'),
                                        maskna_data' + dot coord (snd maskna_strides_it'),
                                        wheremask_data' + dot coord (snd wheremask_strides_it'),
                                        fst shape_it)))
                                (coords (snd shape_it)) (Some w2) of
                            None \<Rightarrow> None
                          | Some w3 \<Rightarrow>
                             (let w4 = emit (EvFree maskna_buffer) w3
                              in Some (if needs_api \<and> pyerr w4 \<noteq> None then -1 else 0, w4)))))))"

subsection \<open>Collaborators modelled from the specification\<close>

definition load :: "heap \<Rightarrow> addr \<Rightarrow> int \<Rightarrow> byte list" where
  "load h p n = map (\<lambda>i. h (p + i)) [0..n - 1]"

definition store :: "heap \<Rightarrow> addr \<Rightarrow> byte list \<Rightarrow> heap" where
  "store h p bs = (\<lambda>a. if p \<le> a \<and> a < p + int (length bs) then bs ! nat (a - p) else h a)"

text \<open>
  Modelled from the spec: the unmasked transfer callable that
  \<^verbatim>\<open>PyArray_GetDTypeTransferFunction\<close> (\<^verbatim>\<open>dtype_transfer.c\<close>) returns: "a callable
  capable of casting-and-copying a contiguous run of elements", "consuming a run length
  and emitting cast values". It processes the run in place, element by element in index
  order: element \<open>i\<close> is read at \<open>src + i * src_stride\<close>, cast, and written at
  \<open>dst + i * dst_stride\<close>. The cast itself is a parameter.
\<close>

fun strided_transfer_loop ::
  "(byte list \<Rightarrow> byte list) \<Rightarrow> int \<Rightarrow> heap \<Rightarrow> addr \<Rightarrow> int \<Rightarrow> addr \<Rightarrow> int \<Rightarrow> nat \<Rightarrow> int \<Rightarrow> heap" where
  "strided_transfer_loop cast dst_itemsize h dst dst_stride src src_stride 0 src_itemsize = h"
| "strided_transfer_loop cast dst_itemsize h dst dst_stride src src_stride (Suc n) src_itemsize =
     strided_transfer_loop cast dst_itemsize
       (store h dst (take (nat dst_itemsize) (cast (load h src src_itemsize))))
       (dst + dst_stride) dst_stride (src + src_stride) src_stride n src_itemsize"

definition strided_transfer :: "(byte list \<Rightarrow> byte list) \<Rightarrow> int \<Rightarrow> PyArray_StridedUnaryOp" where
  "strided_transfer cast dst_itemsize h dst dst_stride src src_stride n src_itemsize =
     (strided_transfer_loop cast dst_itemsize h dst dst_stride src src_stride (nat n)
        src_itemsize, None)"

text \<open>
  Modelled from the spec: the masked transfer callable that
  \<^verbatim>\<open>PyArray_GetMaskedDTypeTransferFunction\<close> (\<^verbatim>\<open>dtype_transfer.c\<close>) returns: as the
  unmasked one, but "elements where the mask is false are left untouched in the
  destination". The mask element \<open>i\<close> is the byte at \<open>mask + i * mask_stride\<close>, true when it is
  not zero.
\<close>

fun masked_transfer_loop ::
  "(byte list \<Rightarrow> byte list) \<Rightarrow> int \<Rightarrow> heap \<Rightarrow> addr \<Rightarrow> int \<Rightarrow> addr \<Rightarrow> int \<Rightarrow> addr \<Rightarrow> int
     \<Rightarrow> nat \<Rightarrow> int \<Rightarrow> heap" where
  "masked_transfer_loop cast dst_itemsize h dst dst_stride src src_stride msk msk_stride
       0 src_itemsize = h"
| "masked_transfer_loop cast dst_itemsize h dst dst_stride src src_stride msk msk_stride
       (Suc n) src_itemsize =
     masked_transfer_loop cast dst_itemsize
       (if h msk \<noteq> 0
        then store h dst (take (nat dst_itemsize) (cast (load h src src_itemsize)))
        else h)
       (dst + dst_stride) dst_stride (src + src_stride) src_stride (msk + msk_stride) msk_stride
       n src_itemsize"

definition masked_transfer ::
  "(byte list \<Rightarrow> byte list) \<Rightarrow> int \<Rightarrow> PyArray_MaskedStridedUnaryOp" where
  "masked_transfer cast dst_itemsize h dst dst_stride src src_stride msk msk_stride n
       src_itemsize =
     (masked_transfer_loop cast dst_itemsize h dst dst_stride src src_stride msk msk_stride
        (nat n) src_itemsize, None)"

text \<open>
  Modelled from the spec: the combination callable that \<^verbatim>\<open>PyArray_GetMaskAndFunction\<close>
  (\<^verbatim>\<open>na_mask.c\<close>) returns, in the configuration the source asks for: element \<open>i\<close> of the
  output is true when both input masks are true at \<open>i\<close>.
\<close>

fun maskand_loop ::
  "heap \<Rightarrow> addr \<Rightarrow> int \<Rightarrow> addr \<Rightarrow> int \<Rightarrow> addr \<Rightarrow> int \<Rightarrow> nat \<Rightarrow> heap" where
  "maskand_loop h dst dst_stride src0 stride0 src1 stride1 0 = h"
| "maskand_loop h dst dst_stride src0 stride0 src1 stride1 (Suc n) =
     maskand_loop (h(dst := (if h src0 \<noteq> 0 \<and> h src1 \<noteq> 0 then 1 else 0)))
       (dst + dst_stride) dst_stride (src0 + stride0) stride0 (src1 + stride1) stride1 n"

definition maskand :: PyArray_StridedBinaryOp where
  "maskand h dst dst_stride src0 stride0 src1 stride1 n =
     maskand_loop h dst dst_stride src0 stride0 src1 stride1 (nat n)"

text \<open>
  Modelled from the spec: the raw-iterator preparers
  \<^verbatim>\<open>PyArray_PrepareTwoRawArrayIter\<close>, \<^verbatim>\<open>...Three...\<close> and \<^verbatim>\<open>...Four...\<close>
  (\<^verbatim>\<open>lowlevel_strided_loops.h\<close>), which normalise "all inputs to one canonical dimension
  count and shape" and return "per-array stride vectors aligned to that canonical shape".
  This model puts the last dimension of the arguments first (entry 0 is the innermost
  dimension of the raw iteration) and merges nothing; a 0-dimensional input becomes one
  dimension of extent 1 and stride 0. A one-dimensional input is returned as it is.
\<close>

definition dimvec_of :: "int \<Rightarrow> int \<Rightarrow> int list \<Rightarrow> dimvec" where
  "dimvec_of d ndim xs = (case rev (take (nat ndim) xs) of [] \<Rightarrow> (d, []) | x # r \<Rightarrow> (x, r))"

definition spec_PrepareTwo ::
  "int \<Rightarrow> int list \<Rightarrow> addr \<Rightarrow> int list \<Rightarrow> addr \<Rightarrow> int list
      \<Rightarrow> (dimvec \<times> (addr \<times> dimvec) \<times> (addr \<times> dimvec)) option" where
  "spec_PrepareTwo ndim shape dataA stridesA dataB stridesB =
     Some (dimvec_of 1 ndim shape, (dataA, dimvec_of 0 ndim stridesA),
           (dataB, dimvec_of 0 ndim stridesB))"

definition spec_PrepareThree ::
  "int \<Rightarrow> int list \<Rightarrow> addr \<Rightarrow> int list \<Rightarrow> addr \<Rightarrow> int list \<Rightarrow> addr \<Rightarrow> int list
      \<Rightarrow> (dimvec \<times> (addr \<times> dimvec) \<times> (addr \<times> dimvec) \<times> (addr \<times> dimvec)) option" where
  "spec_PrepareThree ndim shape dataA stridesA dataB stridesB dataC stridesC =
     Some (dimvec_of 1 ndim shape, (dataA, dimvec_of 0 ndim stridesA),
           (dataB, dimvec_of 0 ndim stridesB), (dataC, dimvec_of 0 ndim stridesC))"

definition spec_PrepareFour ::
  "int \<Rightarrow> int list \<Rightarrow> addr \<Rightarrow> int list \<Rightarrow> addr \<Rightarrow> int list \<Rightarrow> addr \<Rightarrow> int list
      \<Rightarrow> addr \<Rightarrow> int list
      \<Rightarrow> (dimvec \<times> (addr \<times> dimvec) \<times> (addr \<times> dimvec) \<times> (addr \<times> dimvec) \<times> (addr \<times> dimvec)) option" where
  "spec_PrepareFour ndim shape dataA stridesA dataB stridesB dataC stridesC dataD stridesD =
     Some (dimvec_of 1 ndim shape, (dataA, dimvec_of 0 ndim stridesA),
           (dataB, dimvec_of 0 ndim stridesB), (dataC, dimvec_of 0 ndim stridesC),
           (dataD, dimvec_of 0 ndim stridesD))"

text \<open>
  Modelled from the spec: \<^verbatim>\<open>raw_array_is_aligned\<close> (\<^verbatim>\<open>common.h\<close>), the "alignment flag":
  the data pointer and every stride are multiples of the dtype's alignment.
\<close>

definition spec_is_aligned :: "int \<Rightarrow> addr \<Rightarrow> int list \<Rightarrow> int \<Rightarrow> bool" where
  "spec_is_aligned ndim p strds al =
     (if al \<le> 1 then True
      else list_all (\<lambda>x. x mod al = 0) (p # take (nat ndim) strds))"

text \<open>The collaborators together: casts are the function \<open>cast\<close>, whatever the dtypes; no
  callable needs the Python API; the scratch buffer of the third routine is at \<open>buf\<close> and
  holds \<open>bufsize\<close> mask elements.\<close>

definition spec_raw_env :: "(byte list \<Rightarrow> byte list) \<Rightarrow> addr \<Rightarrow> int \<Rightarrow> raw_env" where
  "spec_raw_env cast buf bufsize =
     \<lparr> raw_array_is_aligned = spec_is_aligned,
       PyArray_PrepareTwoRawArrayIter = spec_PrepareTwo,
       PyArray_PrepareThreeRawArrayIter = spec_PrepareThree,
       PyArray_PrepareFourRawArrayIter = spec_PrepareFour,
       PyArray_GetDTypeTransferFunction =
         (\<lambda>aligned src_stride dst_stride src_dtype dst_dtype.
            Inr (strided_transfer cast (elsize dst_dtype), False)),
       PyArray_GetMaskedDTypeTransferFunction =
         (\<lambda>aligned src_stride dst_stride mask_stride src_dtype dst_dtype mask_dtype.
            Inr (masked_transfer cast (elsize dst_dtype), False)),
       PyArray_GetMaskAndFunction =
         (\<lambda>stride0 dtype0 invert0 stride1 dtype1 invert1. Inr maskand),
       PyArray_malloc = (\<lambda>size. buf),
       NPY_ARRAY_ASSIGN_BUFFERSIZE = bufsize \<rparr>"

definition int8 :: PyArray_Descr where
  "int8 = \<lparr> descr_obj = 1, elsize = 1, alignment = 1 \<rparr>"

definition world0 :: "heap \<Rightarrow> world" where
  "world0 h = \<lparr> heap = h, pyerr = None, log = [] \<rparr>"

subsection \<open>Collaborators of PyArray\_AssignArray\<close>

text \<open>\<^verbatim>\<open>xs[i]\<close> of a C array given as a list. Beyond the end the source reads an
  indeterminate value, which is \<open>0\<close> here.\<close>

definition entry :: "int list \<Rightarrow> int \<Rightarrow> int" where
  "entry xs i = (if 0 \<le> i \<and> i < int (length xs) then xs ! nat i else 0)"

text \<open>
  Modelled from the spec: \<^verbatim>\<open>PyArray_CompareLists\<close> (\<^verbatim>\<open>multiarraymodule.c\<close>), used for
  "identical ... per-dimension extents and strides": the first \<open>n\<close> entries are equal.
\<close>

definition PyArray_CompareLists :: "int list \<Rightarrow> int list \<Rightarrow> int \<Rightarrow> bool" where
  "PyArray_CompareLists l1 l2 n = (take (nat n) l1 = take (nat n) l2)"

text \<open>
  Modelled from the spec: \<^verbatim>\<open>broadcast_strides\<close> (\<^verbatim>\<open>array_assign.c\<close>), the
  StrideBroadcaster of section 4.1: for a target shape of \<open>ndim\<close> dimensions and a view of
  \<open>strides_ndim \<le> ndim\<close> dimensions it gives an \<open>ndim\<close>-length stride vector in which
  "size-1 dimensions get stride 0" and "dimensions absent on the left are treated as size
  1/stride 0"; it fails "when a non-1 extent does not equal the corresponding target
  extent", and when the view has more dimensions than the target. \<open>None\<close> is the negative
  return value (the error raised is \<open>ShapeMismatch\<close>).
\<close>

definition broadcast_strides ::
  "int \<Rightarrow> int list \<Rightarrow> int \<Rightarrow> int list \<Rightarrow> int list \<Rightarrow> int list option" where
  "broadcast_strides ndim shape strides_ndim strides_shape strds =
     (let idim_start = ndim - strides_ndim;
          target = drop (nat idim_start) (take (nat ndim) shape);
          sshape = take (nat strides_ndim) strides_shape
      in if idim_start < 0 then None
         else if list_all (\<lambda>(s, t). s = 1 \<or> s = t) (zip sshape target)
         then Some (replicate (nat idim_start) 0 @
                    map (\<lambda>(s, st). if s = 1 then 0 else st) (zip sshape strds))
         else None)"

text \<open>
  Modelled from the spec: \<^verbatim>\<open>arrays_overlap\<close> (\<^verbatim>\<open>array_assign.c\<close>), which is to
  "determine whether the destination and ... source memory footprints intersect". The
  footprint of a view is the list of the bytes of its elements.
\<close>

definition footprint :: "PyArrayObject \<Rightarrow> addr list" where
  "footprint arr =
     concat (map (\<lambda>c. map (\<lambda>i. PyArray_DATA arr + dot c (PyArray_STRIDES arr) + i)
                          [0..elsize (PyArray_DESCR arr) - 1])
                 (coords (PyArray_DIMS arr)))"

definition arrays_overlap :: "PyArrayObject \<Rightarrow> PyArrayObject \<Rightarrow> bool" where
  "arrays_overlap arr1 arr2 = (\<exists>a \<in> set (footprint arr1). a \<in> set (footprint arr2))"

text \<open>
  Modelled from the spec: \<^verbatim>\<open>PyArray_ContainsNA\<close> (\<^verbatim>\<open>na_mask.c\<close>), to "scan source
  (restricted by where-mask) for any NA element". An element is NA when its NA-mask byte is
  cleared ("false/cleared means this element is NA"); with a where-mask, only the elements
  at which the where-mask (broadcast to the array's shape) is true are looked at. The
  result is 1 when an NA element is found, 0 when none is, and -1 when the where-mask does
  not broadcast to the array.
\<close>

definition PyArray_ContainsNA :: "heap \<Rightarrow> PyArrayObject \<Rightarrow> PyArrayObject option \<Rightarrow> int" where
  "PyArray_ContainsNA h arr wheremask =
     (case wheremask of
        None \<Rightarrow>
          (if PyArray_HASMASKNA arr \<and>
              (\<exists>c \<in> set (coords (PyArray_DIMS arr)).
                 h (PyArray_MASKNA_DATA arr + dot c (PyArray_MASKNA_STRIDES arr)) = 0)
           then 1 else 0)
      | Some wm \<Rightarrow>
          (case broadcast_strides (PyArray_NDIM arr) (PyArray_DIMS arr)
                  (PyArray_NDIM wm) (PyArray_DIMS wm) (PyArray_STRIDES wm) of
             None \<Rightarrow> -1
           | Some wheremask_strides \<Rightarrow>
               (if PyArray_HASMASKNA arr \<and>
                   (\<exists>c \<in> set (coords (PyArray_DIMS arr)).
                      h (PyArray_DATA wm + dot c wheremask_strides) \<noteq> 0 \<and>
                      h (PyArray_MASKNA_DATA arr + dot c (PyArray_MASKNA_STRIDES arr)) = 0)
                then 1 else 0)))"

text \<open>
  The functions of other files that \<^verbatim>\<open>PyArray_AssignArray\<close> delegates to or allocates
  with are parameters. An assignment delegate takes the memory and returns the new
  memory and the error it raised, if any (its return value is then -1, else 0).
  \<^verbatim>\<open>NpyNA_FromObject\<close> returns the NA object or \<open>None\<close> for \<^verbatim>\<open>NULL\<close>;
  \<^verbatim>\<open>PyArray_NewLikeArray\<close> and \<^verbatim>\<open>PyArray_AllocateMaskNA\<close> return \<open>None\<close> when they fail.
\<close>

record env =
  raw :: raw_env
  NpyNA_FromObject :: "heap \<Rightarrow> PyArrayObject \<Rightarrow> nat option"
  PyArray_AssignNA ::
    "PyArrayObject \<Rightarrow> nat \<Rightarrow> PyArrayObject option \<Rightarrow> bool \<Rightarrow> bool list option
       \<Rightarrow> heap \<Rightarrow> heap \<times> error option"
  PyArray_AssignRawScalar ::
    "PyArrayObject \<Rightarrow> PyArray_Descr \<Rightarrow> addr \<Rightarrow> PyArrayObject option \<Rightarrow> NPY_CASTING \<Rightarrow> bool
       \<Rightarrow> bool list option \<Rightarrow> heap \<Rightarrow> heap \<times> error option"
  PyArray_AssignMaskNA ::
    "PyArrayObject \<Rightarrow> int \<Rightarrow> PyArrayObject option \<Rightarrow> bool \<Rightarrow> bool list option
       \<Rightarrow> heap \<Rightarrow> heap \<times> error option"
  PyArray_CanCastTypeTo :: "PyArray_Descr \<Rightarrow> PyArray_Descr \<Rightarrow> NPY_CASTING \<Rightarrow> bool"
  PyArray_NewLikeArray :: "PyArrayObject \<Rightarrow> PyArrayObject option"
  PyArray_AllocateMaskNA :: "heap \<Rightarrow> PyArrayObject \<Rightarrow> (PyArrayObject \<times> heap) option"

definition ext_call :: "(heap \<Rightarrow> heap \<times> error option) \<Rightarrow> world \<Rightarrow> int \<times> world" where
  "ext_call f w =
     (case f (heap w) of
        (h, None) \<Rightarrow> (0, w\<lparr>heap := h\<rparr>)
      | (h, Some e) \<Rightarrow> (-1, w\<lparr>heap := h, pyerr := Some e\<rparr>))"

subsection \<open>PyArray\_AssignArray\<close>

text \<open>The loop that strips "unit dimensions from the left of \<open>src\<close>" (lines 547 to 551).\<close>

fun strip_left :: "int \<Rightarrow> int \<Rightarrow> int list \<Rightarrow> int list \<Rightarrow> int \<times> int list \<times> int list" where
  "strip_left ndim_dst ndim_tmp [] src_strides_tmp = (ndim_tmp, [], src_strides_tmp)"
| "strip_left ndim_dst ndim_tmp (d # src_shape_tmp) src_strides_tmp =
     (if ndim_tmp > ndim_dst \<and> d = 1
      then strip_left ndim_dst (ndim_tmp - 1) src_shape_tmp (drop 1 src_strides_tmp)
      else (ndim_tmp, d # src_shape_tmp, src_strides_tmp))"

text \<open>"Broadcast \<open>src\<close> to \<open>dst\<close> for raw iteration" (lines 538 to 567).\<close>

definition broadcast_src :: "PyArrayObject \<Rightarrow> PyArrayObject \<Rightarrow> int list option" where
  "broadcast_src dst src =
     (if PyArray_NDIM src > PyArray_NDIM dst
      then (case strip_left (PyArray_NDIM dst) (PyArray_NDIM src)
                   (PyArray_DIMS src) (PyArray_STRIDES src) of
              (ndim_tmp, src_shape_tmp, src_strides_tmp) \<Rightarrow>
                broadcast_strides (PyArray_NDIM dst) (PyArray_DIMS dst)
                  ndim_tmp src_shape_tmp src_strides_tmp)
      else broadcast_strides (PyArray_NDIM dst) (PyArray_DIMS dst)
             (PyArray_NDIM src) (PyArray_DIMS src) (PyArray_STRIDES src))"

text \<open>Sequencing: a step that returned a negative value is a \<^verbatim>\<open>goto fail\<close>; a step with
  no result (a loop that does not end) leaves the call without result.\<close>

definition and_then ::
  "(int \<times> world) option \<Rightarrow> (world \<Rightarrow> (int \<times> world) option) \<Rightarrow> (int \<times> world) option" where
  "and_then r f =
     (case r of None \<Rightarrow> None
      | Some (rc, w) \<Rightarrow> if rc < 0 then Some (-1, w) else f w)"

text \<open>The same for the one call whose result is tested with \<^verbatim>\<open>if (...)\<close> (line 731).\<close>

definition and_then_nz ::
  "(int \<times> world) option \<Rightarrow> (world \<Rightarrow> (int \<times> world) option) \<Rightarrow> (int \<times> world) option" where
  "and_then_nz r f =
     (case r of None \<Rightarrow> None
      | Some (rc, w) \<Rightarrow> if rc \<noteq> 0 then Some (-1, w) else f w)"

definition finish :: "world \<Rightarrow> (int \<times> world) option" where
  "finish w = Some (0, w)"

text \<open>The assignment without a where-mask (lines 578 to 660).\<close>

definition assign_unmasked ::
  "env \<Rightarrow> world \<Rightarrow> PyArrayObject \<Rightarrow> PyArrayObject \<Rightarrow> bool \<Rightarrow> int list \<Rightarrow> int list
     \<Rightarrow> bool \<Rightarrow> bool list option \<Rightarrow> (int \<times> world) option" where
  "assign_unmasked E w dst src src_has_maskna src_strides src_maskna_strides
       preservena preservewhichna =
    (let dst_has_maskna = PyArray_HASMASKNA dst in
     if \<not> preservena \<or> \<not> dst_has_maskna then
       (if dst_has_maskna \<and> src_has_maskna then
          and_then (Some (raw_array_assign_array (raw E) w
                      (PyArray_NDIM dst) (PyArray_DIMS dst)
                      (PyArray_MASKNA_DTYPE dst) (PyArray_MASKNA_DATA dst)
                      (PyArray_MASKNA_STRIDES dst)
                      (PyArray_MASKNA_DTYPE src) (PyArray_MASKNA_DATA src)
                      src_maskna_strides))
          (\<lambda>w. and_then (Some (raw_array_wheremasked_assign_array (raw E) w
                      (PyArray_NDIM dst) (PyArray_DIMS dst)
                      (PyArray_DESCR dst) (PyArray_DATA dst) (PyArray_STRIDES dst)
                      (PyArray_DESCR src) (PyArray_DATA src) src_strides
                      (PyArray_MASKNA_DTYPE src) (PyArray_MASKNA_DATA src)
                      src_maskna_strides))
           finish)
        else
          and_then (if dst_has_maskna
                    then Some (ext_call (PyArray_AssignMaskNA E dst 1 None
                                           preservena preservewhichna) w)
                    else Some (0, w))
          (\<lambda>w. and_then (Some (raw_array_assign_array (raw E) w
                      (PyArray_NDIM dst) (PyArray_DIMS dst)
                      (PyArray_DESCR dst) (PyArray_DATA dst) (PyArray_STRIDES dst)
                      (PyArray_DESCR src) (PyArray_DATA src) src_strides))
           finish))
     else
       and_then (if src_has_maskna
                 then Some (raw_array_wheremasked_assign_array (raw E) w
                      (PyArray_NDIM dst) (PyArray_DIMS dst)
                      (PyArray_MASKNA_DTYPE dst) (PyArray_MASKNA_DATA dst)
                      (PyArray_MASKNA_STRIDES dst)
                      (PyArray_MASKNA_DTYPE src) (PyArray_MASKNA_DATA src)
                      src_maskna_strides
                      (PyArray_MASKNA_DTYPE dst) (PyArray_MASKNA_DATA dst)
                      (PyArray_MASKNA_STRIDES dst))
                 else Some (0, w))
       (\<lambda>w. and_then (Some (raw_array_wheremasked_assign_array (raw E) w
                      (PyArray_NDIM dst) (PyArray_DIMS dst)
                      (PyArray_DESCR dst) (PyArray_DATA dst) (PyArray_STRIDES dst)
                      (PyArray_DESCR src) (PyArray_DATA src) (PyArray_STRIDES src)
                      (PyArray_MASKNA_DTYPE dst) (PyArray_MASKNA_DATA dst)
                      (PyArray_MASKNA_STRIDES dst)))
        finish))"

text \<open>The assignment with a where-mask (lines 661 to 798).\<close>

definition assign_wheremasked ::
  "env \<Rightarrow> world \<Rightarrow> PyArrayObject \<Rightarrow> PyArrayObject \<Rightarrow> bool \<Rightarrow> int list \<Rightarrow> int list
     \<Rightarrow> PyArrayObject \<Rightarrow> bool \<Rightarrow> bool list option \<Rightarrow> (int \<times> world) option" where
  "assign_wheremasked E w dst src src_has_maskna src_strides src_maskna_strides
       wheremask preservena preservewhichna =
    (let dst_has_maskna = PyArray_HASMASKNA dst;
         containsna = PyArray_ContainsNA (heap w) wheremask None
     in
     if containsna = -1 then Some (-1, PyErr_Set ShapeMismatch w)
     else if containsna \<noteq> 0 then Some (-1, PyErr_Set UnsupportedNA w)
     else
       (case broadcast_strides (PyArray_NDIM dst) (PyArray_DIMS dst)
               (PyArray_NDIM wheremask) (PyArray_DIMS wheremask)
               (PyArray_STRIDES wheremask) of
          None \<Rightarrow> Some (-1, PyErr_Set ShapeMismatch w)
        | Some wheremask_strides \<Rightarrow>
     if \<not> preservena \<or> \<not> dst_has_maskna then
       (if dst_has_maskna \<and> src_has_maskna then
          and_then (Some (raw_array_wheremasked_assign_array (raw E) w
                      (PyArray_NDIM dst) (PyArray_DIMS dst)
                      (PyArray_MASKNA_DTYPE dst) (PyArray_MASKNA_DATA dst)
                      (PyArray_MASKNA_STRIDES dst)
                      (PyArray_MASKNA_DTYPE src) (PyArray_MASKNA_DATA src)
                      src_maskna_strides
                      (PyArray_DESCR wheremask) (PyArray_DATA wheremask)
                      wheremask_strides))
          (\<lambda>w. and_then_nz (raw_array_wheremasked_assign_array_preservena (raw E) w
                      (PyArray_NDIM dst) (PyArray_DIMS dst)
                      (PyArray_DESCR dst) (PyArray_DATA dst) (PyArray_STRIDES dst)
                      (PyArray_DESCR src) (PyArray_DATA src) src_strides
                      (PyArray_MASKNA_DTYPE src) (PyArray_MASKNA_DATA src)
                      src_maskna_strides
                      (PyArray_DESCR wheremask) (PyArray_DATA wheremask)
                      wheremask_strides)
           finish)
        else
          and_then (if dst_has_maskna
                    then Some (ext_call (PyArray_AssignMaskNA E dst 1 (Some wheremask)
                                           preservena preservewhichna) w)
                    else Some (0, w))
          (\<lambda>w. and_then (Some (raw_array_wheremasked_assign_array (raw E) w
                      (PyArray_NDIM dst) (PyArray_DIMS dst)
                      (PyArray_DESCR dst) (PyArray_DATA dst) (PyArray_STRIDES dst)
                      (PyArray_DESCR src) (PyArray_DATA src) src_strides
                      (PyArray_DESCR wheremask) (PyArray_DATA wheremask)
                      wheremask_strides))
           finish))
     else
       and_then (if src_has_maskna
                 then raw_array_wheremasked_assign_array_preservena (raw E) w
                      (PyArray_NDIM dst) (PyArray_DIMS dst)
                      (PyArray_MASKNA_DTYPE dst) (PyArray_MASKNA_DATA dst)
                      (PyArray_MASKNA_STRIDES dst)
                      (PyArray_MASKNA_DTYPE src) (PyArray_MASKNA_DATA src)
                      src_maskna_strides
                      (PyArray_MASKNA_DTYPE dst) (PyArray_MASKNA_DATA dst)
                      (PyArray_MASKNA_STRIDES dst)
                      (PyArray_DESCR wheremask) (PyArray_DATA wheremask)
                      wheremask_strides
                 else Some (0, w))
       (\<lambda>w. and_then (raw_array_wheremasked_assign_array_preservena (raw E) w
                      (PyArray_NDIM dst) (PyArray_DIMS dst)
                      (PyArray_DESCR dst) (PyArray_DATA dst) (PyArray_STRIDES dst)
                      (PyArray_DESCR src) (PyArray_DATA src) (PyArray_STRIDES src)
                      (PyArray_MASKNA_DTYPE dst) (PyArray_MASKNA_DATA dst)
                      (PyArray_MASKNA_STRIDES dst)
                      (PyArray_DESCR wheremask) (PyArray_DATA wheremask)
                      wheremask_strides)
        finish)))"

text \<open>
  The call from the broadcasting of \<open>src\<close> on (lines 538 to 798), with the value of
  \<^verbatim>\<open>src\<close> and \<^verbatim>\<open>src_has_maskna\<close> at that point. The result is 0 where the source
  reaches \<^verbatim>\<open>finish\<close> and -1 where it jumps to \<^verbatim>\<open>fail\<close>.
\<close>

definition assign_broadcast ::
  "env \<Rightarrow> world \<Rightarrow> PyArrayObject \<Rightarrow> PyArrayObject \<Rightarrow> bool \<Rightarrow> PyArrayObject option
     \<Rightarrow> bool \<Rightarrow> bool list option \<Rightarrow> (int \<times> world) option" where
  "assign_broadcast E w dst src src_has_maskna wheremask preservena preservewhichna =
     (case broadcast_src dst src of
        None \<Rightarrow> Some (-1, PyErr_Set ShapeMismatch w)
      | Some src_strides \<Rightarrow>
         (case (if src_has_maskna
                then broadcast_strides (PyArray_NDIM dst) (PyArray_DIMS dst)
                       (PyArray_NDIM src) (PyArray_DIMS src) (PyArray_MASKNA_STRIDES src)
                else Some []) of
            None \<Rightarrow> Some (-1, PyErr_Set ShapeMismatch w)
          | Some src_maskna_strides \<Rightarrow>
             (case wheremask of
                None \<Rightarrow> assign_unmasked E w dst src src_has_maskna src_strides
                          src_maskna_strides preservena preservewhichna
              | Some wm \<Rightarrow> assign_wheremasked E w dst src src_has_maskna src_strides
                          src_maskna_strides wm preservena preservewhichna)))"

text \<open>The test that starts the overlap handling (lines 505 to 508).\<close>

definition needs_copy :: "PyArrayObject \<Rightarrow> PyArrayObject \<Rightarrow> bool" where
  "needs_copy dst src =
     (((PyArray_NDIM dst = 1 \<and> PyArray_NDIM src \<ge> 1 \<and>
        entry (PyArray_STRIDES dst) 0 *
          entry (PyArray_STRIDES src) (PyArray_NDIM src - 1) < 0) \<or>
       PyArray_NDIM dst > 1) \<and> arrays_overlap src dst)"

text \<open>The test for the "redundant copy operation" (lines 438 to 447).\<close>

definition redundant_copy :: "PyArrayObject \<Rightarrow> PyArrayObject \<Rightarrow> bool" where
  "redundant_copy dst src =
     (PyArray_DATA src = PyArray_DATA dst \<and>
      PyArray_MASKNA_DATA src = PyArray_MASKNA_DATA dst \<and>
      descr_obj (PyArray_DESCR src) = descr_obj (PyArray_DESCR dst) \<and>
      PyArray_NDIM src = PyArray_NDIM dst \<and>
      PyArray_CompareLists (PyArray_DIMS src) (PyArray_DIMS dst) (PyArray_NDIM src) \<and>
      PyArray_CompareLists (PyArray_STRIDES src) (PyArray_STRIDES dst) (PyArray_NDIM src))"

text \<open>The labels \<^verbatim>\<open>finish\<close> and \<^verbatim>\<open>fail\<close>: both release the temporary copy, if there is
  one, and return.\<close>

definition release :: "bool \<Rightarrow> PyArrayObject \<Rightarrow> (int \<times> world) option \<Rightarrow> (int \<times> world) option" where
  "release copied_src src r =
     (case r of None \<Rightarrow> None
      | Some (rc, w) \<Rightarrow>
          Some (rc, if copied_src then emit (EvDecref (array_obj src)) w else w))"

text \<open>
  \<^verbatim>\<open>PyArray_AssignArray\<close>. The function calls itself to fill the temporary copy; the first
  argument bounds the depth of these calls, and there is no result (\<open>None\<close>) when the
  bound is reached.
\<close>

fun PyArray_AssignArray ::
  "nat \<Rightarrow> env \<Rightarrow> world \<Rightarrow> PyArrayObject \<Rightarrow> PyArrayObject \<Rightarrow> PyArrayObject option
     \<Rightarrow> NPY_CASTING \<Rightarrow> bool \<Rightarrow> bool list option \<Rightarrow> (int \<times> world) option" where
  "PyArray_AssignArray 0 E w dst src wheremask casting preservena preservewhichna = None"
| "PyArray_AssignArray (Suc depth) E w dst src wheremask casting preservena preservewhichna =
    (let dst_has_maskna = PyArray_HASMASKNA dst;
         src_has_maskna = PyArray_HASMASKNA src
     in
     if PyArray_NDIM src = 0 then
       (case (if PyArray_HASMASKNA src then NpyNA_FromObject E (heap w) src else None) of
          Some na \<Rightarrow>
            Some (ext_call (PyArray_AssignNA E dst na wheremask preservena preservewhichna) w)
        | None \<Rightarrow>
            Some (ext_call (PyArray_AssignRawScalar E dst (PyArray_DESCR src)
                              (PyArray_DATA src) wheremask casting preservena
                              preservewhichna) w))
     else if redundant_copy dst src then Some (0, w)
     else if \<not> PyArray_ISWRITEABLE dst then Some (-1, PyErr_Set ReadOnlyTarget w)
     else if \<not> PyArray_CanCastTypeTo E (PyArray_DESCR src) (PyArray_DESCR dst) casting
     then Some (-1, PyErr_Set UnsafeCast w)
     else if preservewhichna \<noteq> None then Some (-1, PyErr_Set NotImplemented w)
     else
       (let containsna = (if src_has_maskna \<and> \<not> dst_has_maskna
                          then PyArray_ContainsNA (heap w) src wheremask else 0)
        in
        if containsna = -1 then Some (-1, PyErr_Set ShapeMismatch w)
        else if containsna \<noteq> 0 then Some (-1, PyErr_Set UnsupportedNA w)
        else
          (let src_has_maskna = (if src_has_maskna \<and> \<not> dst_has_maskna then False
                                 else src_has_maskna)
           in
           if needs_copy dst src then
             (case PyArray_NewLikeArray E dst of
                None \<Rightarrow> Some (-1, PyErr_Set AllocationFailure w)
              | Some tmp0 \<Rightarrow>
                 (let w1 = emit (EvNewLikeArray (array_obj tmp0)) w
                  in
                  case (if PyArray_HASMASKNA src
                        then PyArray_AllocateMaskNA E (heap w1) tmp0
                        else Some (tmp0, heap w1)) of
                    None \<Rightarrow> Some (-1, emit (EvDecref (array_obj tmp0))
                                        (PyErr_Set AllocationFailure w1))
                  | Some (tmp, h) \<Rightarrow>
                     (case PyArray_AssignArray depth E (w1\<lparr>heap := h\<rparr>) tmp src
                             None NPY_UNSAFE_CASTING False None of
                        None \<Rightarrow> None
                      | Some (rc, w2) \<Rightarrow>
                         if rc < 0 then Some (-1, emit (EvDecref (array_obj tmp)) w2)
                         else release True tmp
                                (assign_broadcast E w2 dst tmp src_has_maskna wheremask
                                   preservena preservewhichna))))
           else release False src
                  (assign_broadcast E w dst src src_has_maskna wheremask
                     preservena preservewhichna))))"

subsection \<open>The properties in the words of the specification\<close>

text \<open>
  The properties of section 4.1 in the words of the specification, for a source of
  extents \<open>ss\<close> and strides \<open>st\<close> and a destination of extents \<open>sd\<close>, dimensions being
  aligned at the right: \<open>shape_mismatch\<close> says that "a non-1 extent does not equal the
  corresponding target extent" (or has none, the source having more dimensions and the
  extent not being stripped), and \<open>broadcast_result\<close> that "size-1 dimensions get stride 0"
  and "dimensions absent on the left are treated as size 1/stride 0".
\<close>

definition shape_mismatch :: "int list \<Rightarrow> int list \<Rightarrow> bool" where
  "shape_mismatch sd ss =
     (\<exists>j<length ss. ss ! j \<noteq> 1 \<and>
        (j + length sd < length ss \<or> ss ! j \<noteq> sd ! (j + length sd - length ss)))"

definition broadcast_result :: "int list \<Rightarrow> int list \<Rightarrow> int list \<Rightarrow> int list \<Rightarrow> bool" where
  "broadcast_result sd ss st out =
     (length out = length sd \<and>
      (\<forall>i<length sd. out ! i =
         (if i + length ss < length sd then 0
          else if ss ! (i + length ss - length sd) = 1 then 0
          else st ! (i + length ss - length sd))))"

text \<open>
  The chunks of one innermost run of \<open>count\<close> elements, in the words of the specification
  ("processed in chunks \<open>\<le>\<close> the buffer capacity ... advancing all four buffer pointers
  ... by the actual bytes consumed each chunk"): chunk \<open>k\<close> starts at element
  \<open>chunk_start\<close>, holds \<open>chunk_count\<close> elements (the minimum of what remains and the
  capacity) and consists of the two calls of \<open>chunk_events\<close>, the mask combination into the
  scratch buffer and then the transfer under the buffered mask, both at the pointers moved
  by the chunk's start.
\<close>

definition chunk_start :: "chunk_ctx \<Rightarrow> nat \<Rightarrow> int" where
  "chunk_start C k = int k * c_buffersize C"

definition chunk_count :: "chunk_ctx \<Rightarrow> int \<Rightarrow> nat \<Rightarrow> int" where
  "chunk_count C count k = min (count - chunk_start C k) (c_buffersize C)"

definition nchunks :: "chunk_ctx \<Rightarrow> int \<Rightarrow> nat" where
  "nchunks C count = nat ((count - 1) div c_buffersize C) + 1"

definition chunk_events :: "chunk_ctx \<Rightarrow> chunk_vars \<Rightarrow> nat \<Rightarrow> event list" where
  "chunk_events C v k =
     (case v of (dst_d, src_d, maskna_d, wheremask_d, count) \<Rightarrow>
        [EvMaskAnd (c_buffer C) (c_maskna_itemsize C)
           (maskna_d + chunk_start C k * c_maskna_stride C) (c_maskna_stride C)
           (wheremask_d + chunk_start C k * c_wheremask_stride C) (c_wheremask_stride C)
           (chunk_count C count k),
         EvMaskedTransfer
           (dst_d + chunk_start C k * c_dst_stride C) (c_dst_stride C)
           (src_d + chunk_start C k * c_src_stride C) (c_src_stride C)
           (c_buffer C) (c_maskna_itemsize C)
           (chunk_count C count k) (c_src_itemsize C)])"

text \<open>
  What one chunk does to memory: \<open>chunk_mask_heap\<close> is the memory once the combination
  callable has written the mask of chunk \<open>k\<close> to the scratch buffer, and \<open>chunk_heap\<close>
  the memory once the transfer callable has then run on the chunk's elements, with the
  scratch buffer as its mask.
\<close>

definition chunk_mask_heap :: "chunk_ctx \<Rightarrow> chunk_vars \<Rightarrow> nat \<Rightarrow> heap \<Rightarrow> heap" where
  "chunk_mask_heap C v k h =
     (case v of (dst_d, src_d, maskna_d, wheremask_d, count) \<Rightarrow>
        c_maskand C h (c_buffer C) (c_maskna_itemsize C)
          (maskna_d + chunk_start C k * c_maskna_stride C) (c_maskna_stride C)
          (wheremask_d + chunk_start C k * c_wheremask_stride C) (c_wheremask_stride C)
          (chunk_count C count k))"

definition chunk_heap :: "chunk_ctx \<Rightarrow> chunk_vars \<Rightarrow> nat \<Rightarrow> heap \<Rightarrow> heap" where
  "chunk_heap C v k h =
     (case v of (dst_d, src_d, maskna_d, wheremask_d, count) \<Rightarrow>
        fst (c_stransfer C (chunk_mask_heap C v k h)
               (dst_d + chunk_start C k * c_dst_stride C) (c_dst_stride C)
               (src_d + chunk_start C k * c_src_stride C) (c_src_stride C)
               (c_buffer C) (c_maskna_itemsize C)
               (chunk_count C count k) (c_src_itemsize C)))"

text \<open>
  "The combined mask (destination-NA inverted AND where-mask)", in the words of the
  specification. An NA-mask element that is cleared "means this element is NA", so the
  inverted destination-NA is true where the NA-mask byte is set, and the combined mask is
  true at an element when its NA-mask byte is set (the destination element is not NA) and
  its where-mask byte is true. \<open>combined_mask\<close> says that in \<open>h'\<close> the scratch buffer
  holds this mask of the memory \<open>h\<close> for the elements of chunk \<open>k\<close>, one buffer element
  per element of the chunk, and that no other byte differs between \<open>h\<close> and \<open>h'\<close>.
  \<open>buffer_apart\<close> says that the buffer elements of chunk \<open>k\<close> are none of the chunk's
  NA-mask or where-mask elements, as it is for a buffer that has just been allocated.
\<close>

definition buffer_apart :: "chunk_ctx \<Rightarrow> chunk_vars \<Rightarrow> nat \<Rightarrow> bool" where
  "buffer_apart C v k =
     (case v of (dst_d, src_d, maskna_d, wheremask_d, count) \<Rightarrow>
        c_maskna_itemsize C \<noteq> 0 \<and>
        (\<forall>i j. 0 \<le> i \<and> i < chunk_count C count k \<and> 0 \<le> j \<and> j < chunk_count C count k \<longrightarrow>
           c_buffer C + i * c_maskna_itemsize C
             \<noteq> maskna_d + (chunk_start C k + j) * c_maskna_stride C \<and>
           c_buffer C + i * c_maskna_itemsize C
             \<noteq> wheremask_d + (chunk_start C k + j) * c_wheremask_stride C))"

definition combined_mask :: "chunk_ctx \<Rightarrow> chunk_vars \<Rightarrow> nat \<Rightarrow> heap \<Rightarrow> heap \<Rightarrow> bool" where
  "combined_mask C v k h h' =
     (case v of (dst_d, src_d, maskna_d, wheremask_d, count) \<Rightarrow>
        (\<forall>i. 0 \<le> i \<and> i < chunk_count C count k \<longrightarrow>
           (h' (c_buffer C + i * c_maskna_itemsize C) \<noteq> 0) =
           (h (maskna_d + (chunk_start C k + i) * c_maskna_stride C) \<noteq> 0 \<and>
            h (wheremask_d + (chunk_start C k + i) * c_wheremask_stride C) \<noteq> 0)) \<and>
        (\<forall>a. (\<forall>i. 0 \<le> i \<and> i < chunk_count C count k \<longrightarrow>
                 a \<noteq> c_buffer C + i * c_maskna_itemsize C) \<longrightarrow> h' a = h a))"

text \<open>
  The elements of a where-masked assignment, in the words of the specification ("only
  destination elements at true positions change; false positions retain their
  pre-assignment value"): \<open>view_triples\<close> lists, for every position of the shape, the
  addresses of the destination element, the source element and the where-mask element;
  \<open>it_triples\<close> is the same list for a prepared raw iteration. \<open>masked_step\<close> is what the
  masked transfer does to one element.
\<close>

definition view_triples ::
  "int list \<Rightarrow> addr \<Rightarrow> int list \<Rightarrow> addr \<Rightarrow> int list \<Rightarrow> addr \<Rightarrow> int list
     \<Rightarrow> (addr \<times> addr \<times> addr) list" where
  "view_triples shape a A b B c C =
     map (\<lambda>x. (a + dot x A, b + dot x B, c + dot x C)) (coords shape)"

definition it_triples ::
  "dimvec \<times> (addr \<times> dimvec) \<times> (addr \<times> dimvec) \<times> (addr \<times> dimvec)
     \<Rightarrow> (addr \<times> addr \<times> addr) list" where
  "it_triples r =
     (case r of (shape_it, (a, A), (b, B), (c, C)) \<Rightarrow>
        view_triples (fst shape_it # snd shape_it) a (fst A # snd A) b (fst B # snd B)
          c (fst C # snd C))"

definition masked_step ::
  "(byte list \<Rightarrow> byte list) \<Rightarrow> int \<Rightarrow> int \<Rightarrow> addr \<times> addr \<times> addr \<Rightarrow> heap \<Rightarrow> heap" where
  "masked_step cast dst_itemsize src_itemsize t h =
     (case t of (d, s, m) \<Rightarrow>
        if h m \<noteq> 0 then store h d (take (nat dst_itemsize) (cast (load h s src_itemsize)))
        else h)"

subsection \<open>Example inputs\<close>

text \<open>A writeable view of one-byte elements at \<open>p\<close>, without NA mask.\<close>

definition ex_view :: "addr \<Rightarrow> int list \<Rightarrow> int list \<Rightarrow> PyArrayObject" where
  "ex_view p dims strds =
     \<lparr> array_obj = nat p, PyArray_DATA = p, PyArray_DIMS = dims, PyArray_STRIDES = strds,
       PyArray_DESCR = int8, PyArray_ISWRITEABLE = True, PyArray_HASMASKNA = False,
       PyArray_MASKNA_DTYPE = int8, PyArray_MASKNA_DATA = 0, PyArray_MASKNA_STRIDES = [] \<rparr>"

text \<open>The one-dimensional view of \<open>n\<close> elements with stride \<open>st\<close>.\<close>

definition ex_vec :: "addr \<Rightarrow> int \<Rightarrow> int \<Rightarrow> PyArrayObject" where
  "ex_vec p n st = ex_view p [n] [st]"

text \<open>The bytes at the addresses \<open>as\<close> after a call.\<close>

definition peek :: "addr list \<Rightarrow> int \<times> world \<Rightarrow> byte list" where
  "peek as r = map (heap (snd r)) as"

text \<open>The one-dimensional view with an NA mask of one byte per element at \<open>m\<close>.\<close>

definition ex_vec_na :: "addr \<Rightarrow> int \<Rightarrow> int \<Rightarrow> addr \<Rightarrow> PyArrayObject" where
  "ex_vec_na p n st m =
     (ex_vec p n st)\<lparr> PyArray_HASMASKNA := True, PyArray_MASKNA_DATA := m,
                      PyArray_MASKNA_STRIDES := [1] \<rparr>"

text \<open>Memory in which the byte at \<open>a\<close> holds \<open>a\<close> (modulo 256), and memory that is all 1.\<close>

definition ramp :: heap where
  "ramp a = of_int a"

definition ones :: heap where
  "ones a = 1"

text \<open>An environment for the examples: the collaborators modelled above, identity casts
  that are always allowed, delegates that do nothing, and an allocator that places every
  temporary at address 5000.\<close>

definition ex_env :: env where
  "ex_env =
     \<lparr> raw = spec_raw_env id 1000 8,
       NpyNA_FromObject = (\<lambda>h arr. None),
       PyArray_AssignNA = (\<lambda>dst na wheremask preservena preservewhichna h. (h, None)),
       PyArray_AssignRawScalar =
         (\<lambda>dst dtype p wheremask casting preservena preservewhichna h. (h, None)),
       PyArray_AssignMaskNA = (\<lambda>dst v wheremask preservena preservewhichna h. (h, None)),
       PyArray_CanCastTypeTo = (\<lambda>from to casting. True),
       PyArray_NewLikeArray =
         (\<lambda>dst. Some (dst\<lparr> array_obj := 5000, PyArray_DATA := 5000,
                            PyArray_HASMASKNA := False \<rparr>)),
       PyArray_AllocateMaskNA = (\<lambda>h arr. None) \<rparr>"

text \<open>A context for the examples: a buffer of two mask elements at address 1000, unit
  strides and one-byte elements.\<close>

definition ex_ctx :: chunk_ctx where
  "ex_ctx = \<lparr> c_buffersize = 2, c_maskand = maskand, c_stransfer = masked_transfer id 1,
              c_buffer = 1000, c_maskna_itemsize = 1, c_src_itemsize = 1,
              c_dst_stride = 1, c_src_stride = 1, c_maskna_stride = 1,
              c_wheremask_stride = 1 \<rparr>"

text \<open>Memory that is all 1 except for the bytes at 100 and 200, which are 0.\<close>

definition na_heap :: heap where
  "na_heap = ones(100 := 0, 200 := 0)"

text \<open>The temporary that the example allocator returns for \<open>ex_vec 1 4 1\<close>.\<close>

definition ex_tmp :: PyArrayObject where
  "ex_tmp = (ex_vec 1 4 1)\<lparr> array_obj := 5000, PyArray_DATA := 5000, PyArray_HASMASKNA := False \<rparr>"

text \<open>Memory in which the byte at \<open>a\<close> holds \<open>a\<close>, but for a where-mask of two elements at
  200: true, false.\<close>

definition mask_heap :: heap where
  "mask_heap = ramp(200 := 1, 201 := 0)"

text \<open>A view of one-byte elements at \<open>p\<close> with an NA mask of one byte per element at
  \<open>m\<close>, whose strides are \<open>mstrds\<close>.\<close>

definition ex_view_na :: "addr \<Rightarrow> int list \<Rightarrow> int list \<Rightarrow> addr \<Rightarrow> int list \<Rightarrow> PyArrayObject" where
  "ex_view_na p dims strds m mstrds =
     (ex_view p dims strds)\<lparr> PyArray_HASMASKNA := True, PyArray_MASKNA_DATA := m,
                              PyArray_MASKNA_STRIDES := mstrds \<rparr>"

text \<open>Memory in which the byte at \<open>a\<close> holds \<open>a\<close>, but for an NA mask of five elements at
  100 in which element 1 is NA, and a where-mask of five elements at 200 that is false at
  element 3.\<close>

definition masks_heap :: heap where
  "masks_heap = ramp(101 := 0, 203 := 0)"

section \<open>Properties\<close>

subsection \<open>The self-assignment short-circuit\<close>

lemma self_assignment_returns:
  assumes "PyArray_NDIM src \<noteq> 0"
    and "PyArray_DATA src = PyArray_DATA dst"
    and "PyArray_MASKNA_DATA src = PyArray_MASKNA_DATA dst"
    and "descr_obj (PyArray_DESCR src) = descr_obj (PyArray_DESCR dst)"
    and "PyArray_DIMS src = PyArray_DIMS dst"
    and "take (length (PyArray_DIMS src)) (PyArray_STRIDES src) =
         take (length (PyArray_DIMS src)) (PyArray_STRIDES dst)"
  shows "PyArray_AssignArray (Suc depth) E w dst src wheremask casting preservena
           preservewhichna = Some (0, w)"
  using assms by (simp add: redundant_copy_def PyArray_CompareLists_def PyArray_NDIM_def)

text \<open>
  C3. For two views that are not 0-dimensional and have the same data pointer, the same
  NA-mask data pointer, the same dtype object, the same rank and the same extents and
  strides in every dimension, \<^verbatim>\<open>PyArray_AssignArray\<close> returns 0 at once: the memory, the
  error indicator and the log of collaborator calls are as they were.
\<close>

theorem C3_self_assignment_noop:
  assumes "PyArray_NDIM src \<noteq> 0"
    and "PyArray_DATA src = PyArray_DATA dst"
    and "PyArray_MASKNA_DATA src = PyArray_MASKNA_DATA dst"
    and "descr_obj (PyArray_DESCR src) = descr_obj (PyArray_DESCR dst)"
    and "PyArray_DIMS src = PyArray_DIMS dst"
    and "take (length (PyArray_DIMS src)) (PyArray_STRIDES src) =
         take (length (PyArray_DIMS src)) (PyArray_STRIDES dst)"
  shows "PyArray_AssignArray (Suc depth) E w dst src wheremask casting preservena
           preservewhichna = Some (0, w)"
  using assms by (rule self_assignment_returns)

theorem C3_witness:
  "PyArray_AssignArray 1 ex_env (world0 ramp) (ex_vec 1 4 1) (ex_vec 1 4 1) None
     NPY_SAFE_CASTING False None = Some (0, world0 ramp)"
proof -
  have "PyArray_NDIM (ex_vec 1 4 1) \<noteq> 0"
    by (simp add: PyArray_NDIM_def ex_vec_def ex_view_def)
  from C3_self_assignment_noop [OF this refl refl refl refl refl, of 0]
  show ?thesis by simp
qed

text \<open>
  C10. When the views pass the self-assignment test and the source is not 0-dimensional,
  the call returns 0 although the destination is not writeable: the test comes before the
  writability check, and no error is raised (the state is unchanged).
\<close>

theorem C10_self_assignment_readonly:
  assumes "\<not> PyArray_ISWRITEABLE dst"
    and "PyArray_NDIM src \<noteq> 0"
    and "PyArray_DATA src = PyArray_DATA dst"
    and "PyArray_MASKNA_DATA src = PyArray_MASKNA_DATA dst"
    and "descr_obj (PyArray_DESCR src) = descr_obj (PyArray_DESCR dst)"
    and "PyArray_DIMS src = PyArray_DIMS dst"
    and "take (length (PyArray_DIMS src)) (PyArray_STRIDES src) =
         take (length (PyArray_DIMS src)) (PyArray_STRIDES dst)"
  shows "PyArray_AssignArray (Suc depth) E w dst src wheremask casting preservena
           preservewhichna = Some (0, w)"
  using assms(2-) by (rule self_assignment_returns)

theorem C10_witness:
  "PyArray_AssignArray 1 ex_env (world0 ramp)
     ((ex_vec 1 4 1)\<lparr>PyArray_ISWRITEABLE := False\<rparr>)
     ((ex_vec 1 4 1)\<lparr>PyArray_ISWRITEABLE := False\<rparr>) None
     NPY_SAFE_CASTING False None = Some (0, world0 ramp)"
proof -
  have a: "\<not> PyArray_ISWRITEABLE ((ex_vec 1 4 1)\<lparr>PyArray_ISWRITEABLE := False\<rparr>)"
    by simp
  have b: "PyArray_NDIM ((ex_vec 1 4 1)\<lparr>PyArray_ISWRITEABLE := False\<rparr>) \<noteq> 0"
    by (simp add: PyArray_NDIM_def ex_vec_def ex_view_def)
  from C10_self_assignment_readonly [OF a b refl refl refl refl refl, of 0]
  show ?thesis by simp
qed

subsection \<open>The preservewhichna parameter\<close>

text \<open>
  C7, as stated, fails: with a \<^verbatim>\<open>preservewhichna\<close> that is not \<^verbatim>\<open>NULL\<close>, assigning a
  one-dimensional view to itself returns 0, and assigning to a read-only destination fails
  with \<open>ReadOnlyTarget\<close>.
\<close>

theorem C7_counterexample:
  "PyArray_AssignArray 1 ex_env (world0 ramp) (ex_vec 1 4 1) (ex_vec 1 4 1) None
     NPY_SAFE_CASTING False (Some [True]) = Some (0, world0 ramp)
   \<and> PyArray_AssignArray 1 ex_env (world0 ramp)
       ((ex_vec 1 4 1)\<lparr>PyArray_ISWRITEABLE := False\<rparr>) (ex_vec 10 4 1) None
       NPY_SAFE_CASTING False (Some [True])
     = Some (-1, PyErr_Set ReadOnlyTarget (world0 ramp))"
  by (simp add: redundant_copy_def PyArray_CompareLists_def PyArray_NDIM_def ex_vec_def ex_view_def)

text \<open>
  C7, amended. When the source is not 0-dimensional, the views do not pass the
  self-assignment test, the destination is writeable and the cast is allowed, a
  \<^verbatim>\<open>preservewhichna\<close> other than \<^verbatim>\<open>NULL\<close> makes the call fail with \<open>NotImplemented\<close>
  before the NA scan, the overlap handling and every transfer: only the error indicator
  changes.
\<close>

theorem C7_preservewhichna_rejected:
  assumes "PyArray_NDIM src \<noteq> 0"
    and "\<not> redundant_copy dst src"
    and "PyArray_ISWRITEABLE dst"
    and "PyArray_CanCastTypeTo E (PyArray_DESCR src) (PyArray_DESCR dst) casting"
    and "preservewhichna \<noteq> None"
  shows "PyArray_AssignArray (Suc depth) E w dst src wheremask casting preservena
           preservewhichna = Some (-1, PyErr_Set NotImplemented w)"
  using assms by (simp add: Let_def del: not_None_eq)

theorem C7_witness:
  "PyArray_AssignArray 1 ex_env (world0 ramp) (ex_vec 1 4 1) (ex_vec 10 4 1) None
     NPY_SAFE_CASTING False (Some [True])
   = Some (-1, PyErr_Set NotImplemented (world0 ramp))"
proof -
  have a: "PyArray_NDIM (ex_vec 10 4 1) \<noteq> 0"
    by (simp add: PyArray_NDIM_def ex_vec_def ex_view_def)
  have b: "\<not> redundant_copy (ex_vec 1 4 1) (ex_vec 10 4 1)"
    by (simp add: redundant_copy_def ex_vec_def ex_view_def)
  have c: "PyArray_ISWRITEABLE (ex_vec 1 4 1)"
    by (simp add: ex_vec_def ex_view_def)
  have d: "PyArray_CanCastTypeTo ex_env (PyArray_DESCR (ex_vec 10 4 1))
             (PyArray_DESCR (ex_vec 1 4 1)) NPY_SAFE_CASTING"
    by (simp add: ex_env_def)
  have e: "Some [True] \<noteq> None" by simp
  from C7_preservewhichna_rejected [OF a b c d e, of 0 "world0 ramp" None False]
  show ?thesis by simp
qed

subsection \<open>Overlap in one dimension\<close>

text \<open>
  C1. The reversal does not give the pre-assignment source elements for every pair of
  same-signed strides. The source is \<open>a[0:8:2]\<close> and the destination \<open>a[1:5]\<close> of the eight bytes \<open>a = 0, ..., 7\<close>:
  the source pointer is below the destination pointer and the source span reaches past
  it, so the routine reverses the traversal (the strides \<open>-2\<close> and \<open>-1\<close> and the start
  pointers 6 and 4 of the log). Element 3 is written at address 4 before element 2 is read
  from address 4: the destination ends as \<open>0, 2, 6, 6\<close>, where the source was
  \<open>0, 2, 4, 6\<close>. The same happens through \<^verbatim>\<open>PyArray_AssignArray\<close>, which makes no
  temporary copy for strides of the same sign.
\<close>

theorem C1_reversal_corrupts:
  "fst (raw_array_assign_array (spec_raw_env id 1000 8) (world0 ramp) 1 [4]
          int8 1 [1] int8 0 [2]) = 0 \<and>
   log (snd (raw_array_assign_array (spec_raw_env id 1000 8) (world0 ramp) 1 [4]
          int8 1 [1] int8 0 [2]))
     = [EvGetDTypeTransfer True (- 2) (- 1), EvTransfer 4 (- 1) 6 (- 2) 4 1] \<and>
   peek [1, 2, 3, 4] (raw_array_assign_array (spec_raw_env id 1000 8) (world0 ramp) 1 [4]
          int8 1 [1] int8 0 [2]) = [0, 2, 6, 6] \<and>
   map ramp [0, 2, 4, 6] = [0, 2, 4, 6] \<and>
   map_option (peek [1, 2, 3, 4])
     (PyArray_AssignArray 1 ex_env (world0 ramp) (ex_vec 1 4 1) (ex_vec 0 4 2) None
        NPY_SAFE_CASTING False None) = Some [0, 2, 6, 6]"
  by code_simp

subsection \<open>The strides given to the transfer-function resolver\<close>

text \<open>
  C8. The third routine gives the resolver \<^verbatim>\<open>src_strides[0]\<close>, entry 0 of the caller's
  stride vector, and not \<^verbatim>\<open>src_strides_it[0]\<close>. For the destination \<open>a[1:5]\<close> and the
  source \<open>a[0:4]\<close> the traversal is reversed, the resolver is asked for a source stride
  of 1 and the transfer runs with a source stride of \<open>-1\<close>. The call is the one that
  \<^verbatim>\<open>PyArray_AssignArray\<close> makes for a destination with an NA mask, a where-mask and
  \<^verbatim>\<open>preservena\<close>.
\<close>

theorem C8_preservena_resolver_stride:
  "map_option (log \<circ> snd)
     (raw_array_wheremasked_assign_array_preservena (spec_raw_env id 1000 8) (world0 ramp)
        1 [4] int8 1 [1] int8 0 [1] int8 100 [1] int8 200 [1])
   = Some [EvMalloc 8, EvGetMaskedDTypeTransfer True 1 (- 1) 1, EvGetMaskAnd (- 1) (- 1),
           EvMaskAnd 1000 1 103 (- 1) 203 (- 1) 4,
           EvMaskedTransfer 4 (- 1) 3 (- 1) 1000 1 4 1, EvFree 1000] \<and>
   map_option (log \<circ> snd)
     (PyArray_AssignArray 1 ex_env (world0 ramp) (ex_vec_na 1 4 1 100) (ex_vec 0 4 1)
        (Some (ex_vec 200 4 1)) NPY_SAFE_CASTING True None)
   = Some [EvMalloc 8, EvGetMaskedDTypeTransfer True 1 (- 1) 1, EvGetMaskAnd (- 1) (- 1),
           EvMaskAnd 1000 1 103 (- 1) 203 (- 1) 4,
           EvMaskedTransfer 4 (- 1) 3 (- 1) 1000 1 4 1, EvFree 1000]"
  by code_simp

subsection \<open>Broadcasting the source\<close>

lemma takeWhile_take_le: "length (takeWhile P (take a xs)) \<le> a"
  using length_takeWhile_le[of P "take a xs"] by simp

lemma takeWhile_take_all: "j < length (takeWhile P (take a xs)) \<Longrightarrow> P (xs ! j)"
proof -
  assume j: "j < length (takeWhile P (take a xs))"
  then have "takeWhile P (take a xs) ! j \<in> set (takeWhile P (take a xs))" by simp
  then have "P (takeWhile P (take a xs) ! j)" by (rule set_takeWhileD[THEN conjunct2])
  moreover have "takeWhile P (take a xs) ! j = take a xs ! j" using j by (rule takeWhile_nth)
  moreover have "j < a" using j takeWhile_take_le[of P a xs] by simp
  ultimately show ?thesis by simp
qed

lemma takeWhile_take_stop: "length (takeWhile P (take a xs)) < a \<Longrightarrow> a \<le> length xs \<Longrightarrow>
   \<not> P (xs ! length (takeWhile P (take a xs)))"
  using nth_length_takeWhile[of P "take a xs"] by simp

lemma strip_left_eq:
  "strip_left (int n) (int (length sh)) sh st =
     (int (length sh - length (takeWhile (\<lambda>d. d = 1) (take (length sh - n) sh))),
      drop (length (takeWhile (\<lambda>d. d = 1) (take (length sh - n) sh))) sh,
      drop (length (takeWhile (\<lambda>d. d = 1) (take (length sh - n) sh))) st)"
proof (induction sh arbitrary: st)
  case Nil
  then show ?case by simp
next
  case (Cons d sh)
  show ?case
  proof (cases "length (d # sh) > n \<and> d = 1")
    case True
    then have "Suc (length sh) - n = Suc (length sh - n)" by (simp add: Suc_diff_le)
    with True Cons show ?thesis by simp
  next
    case False
    then show ?thesis 
      by (cases "Suc (length sh) - n") auto
  qed
qed

lemma broadcast_strides_None:
  "length shape = n \<Longrightarrow> length sshape = m \<Longrightarrow> 
   (broadcast_strides (int n) shape (int m) sshape strds = None) =
     (m > n \<or> (\<exists>j<m. sshape ! j \<noteq> 1 \<and> sshape ! j \<noteq> shape ! (j + n - m)))"
  by (auto simp: broadcast_strides_def Let_def list_all_length nat_diff_distrib' add.commute)

lemma broadcast_strides_Some:
  "broadcast_strides (int n) shape (int m) sshape strds = Some out \<Longrightarrow> length shape = n \<Longrightarrow> length sshape = m \<Longrightarrow> length strds = m \<Longrightarrow>
    length out = n \<and> (\<forall>i<n. out ! i = (if i + m < n then 0 else if sshape ! (i + m - n) = 1 then 0 else strds ! (i + m - n)))"
  by (auto simp: broadcast_strides_def Let_def nth_append nat_diff_distrib' split: if_splits)

lemma broadcast_no_strip:
  assumes "length ss \<le> length sd" "length st = length ss"
  shows "(case broadcast_strides (int (length sd)) sd (int (length ss)) ss st of
            None \<Rightarrow> shape_mismatch sd ss | Some out \<Rightarrow> \<not> shape_mismatch sd ss \<and> broadcast_result sd ss st out)"
proof (cases "broadcast_strides (int (length sd)) sd (int (length ss)) ss st")
  case None
  then have "length ss > length sd \<or> (\<exists>j<length ss. ss ! j \<noteq> 1 \<and> ss ! j \<noteq> sd ! (j + length sd - length ss))"
    using broadcast_strides_None[of sd "length sd" ss "length ss" st] by simp
  then have "shape_mismatch sd ss" using assms(1) unfolding shape_mismatch_def by auto
  then show ?thesis using None by simp
next
  case (Some out)
  then have "\<not> (length ss > length sd \<or> (\<exists>j<length ss. ss ! j \<noteq> 1 \<and> ss ! j \<noteq> sd ! (j + length sd - length ss)))"
    using broadcast_strides_None[of sd "length sd" ss "length ss" st] by simp
  then have "\<not> shape_mismatch sd ss" using assms(1) unfolding shape_mismatch_def by auto
  moreover have "broadcast_result sd ss st out" 
    using broadcast_strides_Some[OF Some refl refl assms(2)] 
    unfolding broadcast_result_def by simp
  ultimately show ?thesis using Some by simp
qed

lemma strip_left_broadcast:
  assumes gt: "length ss > length sd" 
  shows "\<exists>k. k \<le> length ss - length sd \<and> (\<forall>j<k. ss ! j = 1) \<and> (k < length ss - length sd \<longrightarrow> ss ! k \<noteq> 1) \<and>
    (case strip_left (int (length sd)) (int (length ss)) ss st of
                  (ndim_tmp, shape_tmp, strides_tmp) \<Rightarrow> broadcast_strides (int (length sd)) sd ndim_tmp shape_tmp strides_tmp)
            = broadcast_strides (int (length sd)) sd (int (length ss - k)) (drop k ss) (drop k st)"
proof -
  define k where "k = length (takeWhile (\<lambda>d. d = 1) (take (length ss - length sd) ss))"
  have kle: "k \<le> length ss - length sd" unfolding k_def by (rule takeWhile_take_le)
  have ones: "\<forall>j<k. ss ! j = 1"
    using takeWhile_take_all[of _ "\<lambda>d. d = 1" "length ss - length sd" ss] unfolding k_def by blast
  have stop: "k < length ss - length sd \<longrightarrow> ss ! k \<noteq> 1"
    using takeWhile_take_stop[of "\<lambda>d. d = 1" "length ss - length sd" ss] unfolding k_def by simp
  have "strip_left (int (length sd)) (int (length ss)) ss st = (int (length ss - k), drop k ss, drop k st)"
    unfolding k_def by (rule strip_left_eq)
  then have eq: "(case strip_left (int (length sd)) (int (length ss)) ss st of
                  (ndim_tmp, shape_tmp, strides_tmp) \<Rightarrow> broadcast_strides (int (length sd)) sd ndim_tmp shape_tmp strides_tmp)
            = broadcast_strides (int (length sd)) sd (int (length ss  - k)) (drop k ss) (drop k st)"
    by (simp only: prod.case)
  show ?thesis using kle ones stop eq by blast
qed

lemma broadcast_strip:
  assumes gt: "length ss > length sd" and st: "length st = length ss"
  shows "(case (case strip_left (int (length sd)) (int (length ss)) ss st of
                  (ndim_tmp, shape_tmp, strides_tmp) \<Rightarrow> broadcast_strides (int (length sd)) sd ndim_tmp shape_tmp strides_tmp) of
            None \<Rightarrow> shape_mismatch sd ss | Some out \<Rightarrow> \<not> shape_mismatch sd ss \<and> broadcast_result sd ss st out)"
proof -
  define n where "n = length sd"
  define m where "m = length ss"
  have nm: "n < m" using gt by (simp add: n_def m_def)
  obtain k where kle: "k \<le> m - n" and ones: "\<forall>j<k. ss ! j = 1"
    and stop: "k < m - n \<longrightarrow> ss ! k \<noteq> 1"
    and eq: "(case strip_left (int (length sd)) (int (length ss)) ss st of
                  (ndim_tmp, shape_tmp, strides_tmp) \<Rightarrow> broadcast_strides (int (length sd)) sd ndim_tmp shape_tmp strides_tmp)
            = broadcast_strides (int n) sd (int (m - k)) (drop k ss) (drop k st)"
    using strip_left_broadcast[OF gt, of st] unfolding n_def m_def by blast
  show ?thesis
  proof (cases "k < m - n")
    case True
    have "ss ! k \<noteq> 1" using stop True by blast
    moreover have "k < length ss" "k + length sd < length ss" using True by (simp_all add: n_def m_def)
    ultimately have "shape_mismatch sd ss" unfolding shape_mismatch_def by blast
    moreover have "n < m - k" using True by simp
    then have "int n - int (m - k) < 0" by simp
    then have "broadcast_strides (int n) sd (int (m - k)) (drop k ss) (drop k st) = None"
      unfolding broadcast_strides_def Let_def by (simp only: if_True)
    ultimately show ?thesis using eq by simp
  next
    case False
    then have keq: "k = m - n" using kle by simp
    have mk: "m - k = n" using keq nm by simp
    have len: "length (drop k ss) = n" "length (drop k st) = n" using mk st by (simp_all add: m_def)
    have nth: "drop k ss ! j = ss ! (j + m - n)" "drop k st ! j = st ! (j + m - n)" if "j < n" for j
    proof -
      have "k + j = j + m - n" using keq nm by simp
      moreover have "k + j \<le> length ss" "k + j \<le> length st" using that keq nm st by (simp_all add: m_def)
      ultimately show "drop k ss ! j = ss ! (j + m - n)" "drop k st ! j = st ! (j + m - n)"
        using nth_drop[of k ss j] nth_drop[of k st j] by simp_all
    qed
    have mm: "shape_mismatch sd ss = (\<exists>j<n. drop k ss ! j \<noteq> 1 \<and> drop k ss ! j \<noteq> sd ! (j + n - n))"
    proof
      assume "shape_mismatch sd ss"
      then obtain j where j: "j < m" "ss ! j \<noteq> 1" "j + n < m \<or> ss ! j \<noteq> sd ! (j + n - m)"
        unfolding shape_mismatch_def m_def n_def by blast
      then have jk: "\<not> j < k" using ones by blast
      then have a: "j - k < n" using j(1) keq nm by simp
      have b: "(j - k) + m - n = j" using jk keq nm by simp
      have c: "j + n - m = j - k" using jk keq nm by simp
      have "\<not> j + n < m" using jk keq by simp
      then have "ss ! j \<noteq> sd ! (j - k)" using j(3) c by simp
      then have "drop k ss ! (j - k) \<noteq> 1 \<and> drop k ss ! (j - k) \<noteq> sd ! ((j - k) + n - n)"
        using nth(1)[OF a] b j(2) by simp
      then show "\<exists>j<n. drop k ss ! j \<noteq> 1 \<and> drop k ss ! j \<noteq> sd ! (j + n - n)" using a by blast
    next
      assume "\<exists>j<n. drop k ss ! j \<noteq> 1 \<and> drop k ss ! j \<noteq> sd ! (j + n - n)"
      then obtain j where j: "j < n" "drop k ss ! j \<noteq> 1" "drop k ss ! j \<noteq> sd ! j" by auto
      have a: "j + m - n < m" using j(1) nm by simp
      have b: "j + m - n + n - m = j" using nm by simp
      have "\<not> j + m - n + n < m" using nm by simp
      have "ss ! (j + m - n) \<noteq> 1 \<and> ss ! (j + m - n) \<noteq> sd ! (j + m - n + n - m)"
        using j nth(1)[OF j(1)] b by simp
      then show "shape_mismatch sd ss" unfolding shape_mismatch_def using a
        unfolding m_def n_def by blast
    qed
    have sdn: "length sd = n" by (simp add: n_def)
    have "(broadcast_strides (int n) sd (int n) (drop k ss) (drop k st) = None) =
          (n < n \<or> (\<exists>j<n. drop k ss ! j \<noteq> 1 \<and> drop k ss ! j \<noteq> sd ! (j + n - n)))"
      by (rule broadcast_strides_None[OF sdn len(1)])
    then have none: "(broadcast_strides (int n) sd (int n) (drop k ss) (drop k st) = None) = shape_mismatch sd ss"
      using mm by blast
    show ?thesis
    proof (cases "broadcast_strides (int n) sd (int n) (drop k ss) (drop k st)")
      case None
      then show ?thesis using eq none mk by simp
    next
      case (Some out)
      then have nmm: "\<not> shape_mismatch sd ss" using none by simp
      have o: "length out = n \<and> (\<forall>i<n. out ! i = (if i + n < n then 0 else if drop k ss ! (i + n - n) = 1 then 0 else drop k st ! (i + n - n)))"
        by (rule broadcast_strides_Some[OF Some sdn len])
      have "broadcast_result sd ss st out" unfolding broadcast_result_def
      proof (intro conjI allI impI)
        show "length out = length sd" using o by (simp add: n_def)
      next
        fix i assume i: "i < length sd"
        then have i': "i < n" by (simp add: n_def)
        have "\<not> i + length ss < length sd" using gt by simp
        moreover have "out ! i = (if drop k ss ! i = 1 then 0 else drop k st ! i)"
          using o i' by simp
        ultimately show "out ! i = (if i + length ss < length sd then 0
           else if ss ! (i + length ss - length sd) = 1 then 0
           else st ! (i + length ss - length sd))"
          using nth[OF i'] by (simp add: m_def n_def)
      qed
      then show ?thesis using eq Some nmm mk by simp
    qed
  qed
qed

text \<open>
  The broadcast of the source's data strides to the destination's shape (lines 538 to 567,
  with \<^verbatim>\<open>broadcast_strides\<close> as the specification describes it), dimensions being
  aligned at the right. It fails exactly when some source extent other than 1 differs from
  the destination extent it is aligned with, or has none because the source has more
  dimensions (only leading extents of 1 are stripped); the call then fails with
  \<open>ShapeMismatch\<close>. Otherwise the result has one stride per destination dimension: 0 for a
  dimension that the source lacks on the left, 0 for a source dimension of extent 1, and
  the source's stride elsewhere.
\<close>

lemma broadcast_src_exact:
  assumes "length (PyArray_STRIDES src) = length (PyArray_DIMS src)"
  shows "case broadcast_src dst src of
           None \<Rightarrow>
             (\<exists>j<length (PyArray_DIMS src). PyArray_DIMS src ! j \<noteq> 1 \<and>
                (j + length (PyArray_DIMS dst) < length (PyArray_DIMS src) \<or>
                 PyArray_DIMS src ! j \<noteq>
                   PyArray_DIMS dst ! (j + length (PyArray_DIMS dst) - length (PyArray_DIMS src))))
             \<and> assign_broadcast E w dst src src_has_maskna wheremask preservena
                  preservewhichna = Some (-1, PyErr_Set ShapeMismatch w)
         | Some out \<Rightarrow>
             \<not> (\<exists>j<length (PyArray_DIMS src). PyArray_DIMS src ! j \<noteq> 1 \<and>
                (j + length (PyArray_DIMS dst) < length (PyArray_DIMS src) \<or>
                 PyArray_DIMS src ! j \<noteq>
                   PyArray_DIMS dst ! (j + length (PyArray_DIMS dst) - length (PyArray_DIMS src))))
             \<and> length out = length (PyArray_DIMS dst)
             \<and> (\<forall>i<length (PyArray_DIMS dst). out ! i =
                  (if i + length (PyArray_DIMS src) < length (PyArray_DIMS dst) then 0
                   else if PyArray_DIMS src !
                             (i + length (PyArray_DIMS src) - length (PyArray_DIMS dst)) = 1
                   then 0
                   else PyArray_STRIDES src !
                          (i + length (PyArray_DIMS src) - length (PyArray_DIMS dst))))"
proof -
  have *: "case broadcast_src dst src of
             None \<Rightarrow> shape_mismatch (PyArray_DIMS dst) (PyArray_DIMS src)
           | Some out \<Rightarrow> \<not> shape_mismatch (PyArray_DIMS dst) (PyArray_DIMS src) \<and>
               broadcast_result (PyArray_DIMS dst) (PyArray_DIMS src) (PyArray_STRIDES src) out"
  proof (cases "length (PyArray_DIMS src) > length (PyArray_DIMS dst)")
    case True
    then show ?thesis
      using broadcast_strip[OF True assms] by (simp add: broadcast_src_def PyArray_NDIM_def)
  next
    case False
    then have "length (PyArray_DIMS src) \<le> length (PyArray_DIMS dst)" by simp
    from broadcast_no_strip[OF this assms] False show ?thesis
      by (simp add: broadcast_src_def PyArray_NDIM_def)
  qed
  show ?thesis
  proof (cases "broadcast_src dst src")
    case None
    then show ?thesis using *
      by (simp add: shape_mismatch_def assign_broadcast_def)
  next
    case (Some out)
    then show ?thesis using *
      by (simp add: shape_mismatch_def broadcast_result_def)
  qed
qed

text \<open>
  C4. The data strides of the source are broadcast as the claim says (lines 538 to 567,
  the lemma above), but the call does not fail with \<open>ShapeMismatch\<close> only when an extent
  mismatches. For a source with an NA mask it goes on to broadcast the strides of the NA
  mask (lines 569 to 576), and there it passes \<^verbatim>\<open>PyArray_NDIM(src)\<close> and
  \<^verbatim>\<open>PyArray_DIMS(src)\<close>, not the rank and the extents that the strip has left. A source
  of shape \<open>(1, 4)\<close> with an NA mask, assigned to a destination of shape \<open>(4)\<close> with an
  NA mask: the leading extent 1 is covered by the left-strip, the broadcast of the data
  strides gives \<open>[1]\<close>, and no source extent other than 1 differs from the destination
  extent it is aligned with; yet the call fails with \<open>ShapeMismatch\<close>, because the
  NA-mask strides are broadcast with the source's full rank 2, which exceeds the
  destination's. The same call on views without NA masks returns 0.
\<close>

theorem C4_mask_broadcast_fails:
  "broadcast_src (ex_view_na 1 [4] [1] 100 [1]) (ex_view_na 10 [1, 4] [4, 1] 200 [4, 1])
     = Some [1] \<and>
   \<not> shape_mismatch [4] [1, 4] \<and>
   PyArray_AssignArray 1 ex_env (world0 ones) (ex_view_na 1 [4] [1] 100 [1])
     (ex_view_na 10 [1, 4] [4, 1] 200 [4, 1]) None NPY_SAFE_CASTING False None
     = Some (- 1, PyErr_Set ShapeMismatch (world0 ones)) \<and>
   map_option fst
     (PyArray_AssignArray 1 ex_env (world0 ones) (ex_view 1 [4] [1])
        (ex_view 10 [1, 4] [4, 1]) None NPY_SAFE_CASTING False None) = Some 0"
proof -
  have a: "broadcast_src (ex_view_na 1 [4] [1] 100 [1])
             (ex_view_na 10 [1, 4] [4, 1] 200 [4, 1]) = Some [1]"
    by code_simp
  have b: "\<not> shape_mismatch [4] [1, 4]"
    by (auto simp: shape_mismatch_def less_Suc_eq)
  have c: "\<not> needs_copy (ex_view_na 1 [4] [1] 100 [1])
               (ex_view_na 10 [1, 4] [4, 1] 200 [4, 1])"
    by code_simp
  have d: "PyArray_AssignArray 1 ex_env (world0 ones) (ex_view_na 1 [4] [1] 100 [1])
             (ex_view_na 10 [1, 4] [4, 1] 200 [4, 1]) None NPY_SAFE_CASTING False None
           = Some (- 1, PyErr_Set ShapeMismatch (world0 ones))"
    using a c
    by (simp add: redundant_copy_def PyArray_NDIM_def ex_view_na_def ex_view_def ex_env_def
          assign_broadcast_def broadcast_strides_def release_def Let_def)
  have e: "map_option fst
             (PyArray_AssignArray 1 ex_env (world0 ones) (ex_view 1 [4] [1])
                (ex_view 10 [1, 4] [4, 1]) None NPY_SAFE_CASTING False None) = Some 0"
    by code_simp
  show ?thesis using a b d e by blast
qed

subsection \<open>The chunks of the NA-preserving transfer\<close>

lemma div_mult_bounds:
  fixes a B :: int
  assumes "0 < B"
  shows "a div B * B \<le> a" and "a < a div B * B + B"
proof -
  have e: "a div B * B + a mod B = a" by (rule div_mult_mod_eq)
  have "0 \<le> a mod B" "a mod B < B" using assms by simp_all
  with e show "a div B * B \<le> a" and "a < a div B * B + B" by linarith+
qed

lemma full_chunk:
  assumes B: "0 < c_buffersize C" and k: "Suc k < nchunks C count"
  shows "chunk_count C count k = c_buffersize C"
proof -
  have "int (Suc k) \<le> (count - 1) div c_buffersize C" using k by (simp add: nchunks_def)
  then have "int (Suc k) * c_buffersize C \<le> ((count - 1) div c_buffersize C) * c_buffersize C"
    using B by (simp add: mult_right_mono)
  also have "... \<le> count - 1" using B by (rule div_mult_bounds(1))
  finally have "int (Suc k) * c_buffersize C \<le> count - 1" .
  then have "c_buffersize C \<le> count - int k * c_buffersize C" by (simp add: algebra_simps)
  then show ?thesis by (simp add: chunk_count_def chunk_start_def)
qed

lemma chunks_cover:
  assumes B: "0 < c_buffersize C"
  shows "(\<Union>k<nchunks C count. {chunk_start C k ..< chunk_start C k + chunk_count C count k})
         = {0..<count}"
proof (intro equalityI subsetI)
  fix x
  assume "x \<in> (\<Union>k<nchunks C count. {chunk_start C k ..< chunk_start C k + chunk_count C count k})"
  then obtain k where "chunk_start C k \<le> x" "x < chunk_start C k + chunk_count C count k"
    by auto
  moreover have "0 \<le> chunk_start C k" using B by (simp add: chunk_start_def)
  moreover have "chunk_start C k + chunk_count C count k \<le> count"
    by (simp add: chunk_count_def)
  ultimately show "x \<in> {0..<count}" by simp
next
  fix x assume "x \<in> {0..<count}"
  then have x: "0 \<le> x" "x < count" by simp_all
  define k where "k = nat (x div c_buffersize C)"
  have xd: "0 \<le> x div c_buffersize C" using x B by (simp add: pos_imp_zdiv_nonneg_iff)
  then have ik: "int k = x div c_buffersize C" by (simp add: k_def)
  have "x \<le> count - 1" using x by simp
  then have "x div c_buffersize C \<le> (count - 1) div c_buffersize C" using B by (rule zdiv_mono1)
  then have kN: "k < nchunks C count" using xd by (simp add: nchunks_def k_def)
  have lo: "chunk_start C k \<le> x"
    unfolding chunk_start_def ik using B by (rule div_mult_bounds(1))
  have "x < (x div c_buffersize C) * c_buffersize C + c_buffersize C"
    using B by (rule div_mult_bounds(2))
  then have "x < chunk_start C k + chunk_count C count k"
    using x ik by (simp add: chunk_start_def chunk_count_def min_def)
  then show "x \<in> (\<Union>k<nchunks C count. {chunk_start C k ..< chunk_start C k + chunk_count C count k})"
    using kN lo by auto
qed

lemma chunks_disjoint:
  assumes B: "0 < c_buffersize C" and "k \<noteq> k'"
  shows "{chunk_start C k ..< chunk_start C k + chunk_count C count k} \<inter>
         {chunk_start C k' ..< chunk_start C k' + chunk_count C count k'} = {}"
proof -
  have *: "{chunk_start C a ..< chunk_start C a + chunk_count C count a} \<inter>
           {chunk_start C b ..< chunk_start C b + chunk_count C count b} = {}" if "a < b" for a b
  proof -
    have "int (Suc a) \<le> int b" using that by simp
    then have "int (Suc a) * c_buffersize C \<le> int b * c_buffersize C"
      using B by (intro mult_right_mono) simp_all
    then have "chunk_start C a + c_buffersize C \<le> chunk_start C b"
      by (simp add: chunk_start_def algebra_simps)
    moreover have "chunk_count C count a \<le> c_buffersize C" by (simp add: chunk_count_def)
    ultimately show ?thesis by auto
  qed
  show ?thesis using *[of k k'] *[of k' k] assms(2) by (cases "k < k'") auto
qed

lemma chunk_body_log:
  "chunk_body C (d, s, m, wm, count) w = (v', w') \<Longrightarrow>
     log w' = log w @ chunk_events C (d, s, m, wm, count) 0 \<and>
     v' = (d + min count (c_buffersize C) * c_dst_stride C,
           s + min count (c_buffersize C) * c_src_stride C,
           m + min count (c_buffersize C) * c_maskna_stride C,
           wm + min count (c_buffersize C) * c_wheremask_stride C,
           count - min count (c_buffersize C))"
  by (auto simp: chunk_body_def chunk_events_def chunk_start_def chunk_count_def Let_def
        call_maskand_def call_masked_stransfer_def min_def split: prod.splits)

lemma chunk_events_shift:
  "chunk_events C (d + c_buffersize C * c_dst_stride C, s + c_buffersize C * c_src_stride C,
                   m + c_buffersize C * c_maskna_stride C,
                   wm + c_buffersize C * c_wheremask_stride C,
                   count - c_buffersize C) k
   = chunk_events C (d, s, m, wm, count) (Suc k)"
  by (simp add: chunk_events_def chunk_start_def chunk_count_def algebra_simps)

lemma chunk_body_heap:
  "chunk_body C (d, s, m, wm, count) w = (v', w') \<Longrightarrow>
     heap w' = chunk_heap C (d, s, m, wm, count) 0 (heap w)"
  by (cases "count < c_buffersize C")
     (auto simp: chunk_body_def chunk_heap_def chunk_mask_heap_def chunk_start_def
        chunk_count_def Let_def call_maskand_def call_masked_stransfer_def
        split: prod.splits)

lemma chunk_heap_shift:
  "chunk_heap C (d + c_buffersize C * c_dst_stride C, s + c_buffersize C * c_src_stride C,
                 m + c_buffersize C * c_maskna_stride C,
                 wm + c_buffersize C * c_wheremask_stride C,
                 count - c_buffersize C) k
   = chunk_heap C (d, s, m, wm, count) (Suc k)"
  by (rule ext)
     (simp add: chunk_heap_def chunk_mask_heap_def chunk_start_def chunk_count_def algebra_simps)

lemma maskand_loop_frame:
  "(\<forall>i<n. a \<noteq> dst + int i * ds) \<Longrightarrow> maskand_loop h dst ds s0 st0 s1 st1 n a = h a"
proof (induction n arbitrary: h dst s0 s1)
  case 0
  then show ?case by simp
next
  case (Suc n)
  have "\<forall>i<n. a \<noteq> (dst + ds) + int i * ds"
  proof (intro allI impI)
    fix i assume "i < n"
    then have "a \<noteq> dst + int (Suc i) * ds" using Suc.prems by blast
    then show "a \<noteq> (dst + ds) + int i * ds" by (simp add: algebra_simps)
  qed
  from Suc.IH[OF this] have
    "maskand_loop (h(dst := (if h s0 \<noteq> 0 \<and> h s1 \<noteq> 0 then 1 else 0))) (dst + ds) ds
       (s0 + st0) st0 (s1 + st1) st1 n a
     = (h(dst := (if h s0 \<noteq> 0 \<and> h s1 \<noteq> 0 then 1 else 0))) a" .
  moreover have "a \<noteq> dst" using Suc.prems[rule_format, of 0] by simp
  ultimately show ?case by simp
qed

lemma maskand_loop_content:
  assumes "ds \<noteq> 0"
  shows "(\<forall>i<n. \<forall>j<n. dst + int i * ds \<noteq> s0 + int j * st0 \<and>
                        dst + int i * ds \<noteq> s1 + int j * st1) \<Longrightarrow> i < n \<Longrightarrow>
         maskand_loop h dst ds s0 st0 s1 st1 n (dst + int i * ds)
         = (if h (s0 + int i * st0) \<noteq> 0 \<and> h (s1 + int i * st1) \<noteq> 0 then 1 else 0)"
proof (induction n arbitrary: h dst s0 s1 i)
  case 0
  then show ?case by simp
next
  case (Suc n)
  let ?h = "h(dst := (if h s0 \<noteq> 0 \<and> h s1 \<noteq> 0 then 1 else 0))"
  show ?case
  proof (cases i)
    case 0
    have "\<forall>j<n. dst \<noteq> (dst + ds) + int j * ds"
    proof (intro allI impI)
      fix j assume "j < n"
      have "(1 + int j) * ds \<noteq> 0" using assms by simp
      then show "dst \<noteq> (dst + ds) + int j * ds" by (simp add: algebra_simps)
    qed
    from maskand_loop_frame[OF this] have
      "maskand_loop ?h (dst + ds) ds (s0 + st0) st0 (s1 + st1) st1 n dst = ?h dst" .
    then show ?thesis using 0 by simp
  next
    case (Suc i')
    then have i': "i' < n" using Suc.prems(2) by simp
    have ap: "\<forall>a<n. \<forall>b<n. (dst + ds) + int a * ds \<noteq> (s0 + st0) + int b * st0 \<and>
                             (dst + ds) + int a * ds \<noteq> (s1 + st1) + int b * st1"
    proof (intro allI impI)
      fix a b assume "a < n" "b < n"
      then have "dst + int (Suc a) * ds \<noteq> s0 + int (Suc b) * st0 \<and>
                 dst + int (Suc a) * ds \<noteq> s1 + int (Suc b) * st1"
        using Suc.prems(1)[rule_format, of "Suc a" "Suc b"] by simp
      then show "(dst + ds) + int a * ds \<noteq> (s0 + st0) + int b * st0 \<and>
                 (dst + ds) + int a * ds \<noteq> (s1 + st1) + int b * st1"
        by (simp add: algebra_simps)
    qed
    have e: "dst + int i * ds = (dst + ds) + int i' * ds"
            "s0 + int i * st0 = (s0 + st0) + int i' * st0"
            "s1 + int i * st1 = (s1 + st1) + int i' * st1"
      using Suc by (simp_all add: algebra_simps)
    have "dst + int 0 * ds \<noteq> s0 + int i * st0 \<and> dst + int 0 * ds \<noteq> s1 + int i * st1"
      using Suc.prems(1)[rule_format, of 0 i] Suc.prems(2) by blast
    then have u: "?h (s0 + int i * st0) = h (s0 + int i * st0)"
                 "?h (s1 + int i * st1) = h (s1 + int i * st1)"
      by simp_all
    from Suc.IH[OF ap i', of ?h] have
      "maskand_loop ?h (dst + ds) ds (s0 + st0) st0 (s1 + st1) st1 n ((dst + ds) + int i' * ds)
       = (if ?h ((s0 + st0) + int i' * st0) \<noteq> 0 \<and> ?h ((s1 + st1) + int i' * st1) \<noteq> 0
          then 1 else 0)" .
    then show ?thesis unfolding e[symmetric] u by simp
  qed
qed

lemma maskand_combined:
  assumes "c_maskand C = maskand" and "buffer_apart C v k"
  shows "combined_mask C v k h (chunk_mask_heap C v k h)"
proof -
  obtain d s m wm count where v: "v = (d, s, m, wm, count)" by (cases v)
  define n where "n = nat (chunk_count C count k)"
  define m0 where "m0 = m + chunk_start C k * c_maskna_stride C"
  define w0 where "w0 = wm + chunk_start C k * c_wheremask_stride C"
  have isz: "c_maskna_itemsize C \<noteq> 0" using assms(2) by (simp add: buffer_apart_def v)
  have ap: "\<forall>i<n. \<forall>j<n. c_buffer C + int i * c_maskna_itemsize C \<noteq> m0 + int j * c_maskna_stride C \<and>
                 c_buffer C + int i * c_maskna_itemsize C \<noteq> w0 + int j * c_wheremask_stride C"
  proof (intro allI impI)
    fix i j assume "i < n" "j < n"
    then have "0 \<le> int i \<and> int i < chunk_count C count k \<and> 0 \<le> int j \<and> int j < chunk_count C count k"
      unfolding n_def by linarith
    then have "c_buffer C + int i * c_maskna_itemsize C
                 \<noteq> m + (chunk_start C k + int j) * c_maskna_stride C \<and>
               c_buffer C + int i * c_maskna_itemsize C
                 \<noteq> wm + (chunk_start C k + int j) * c_wheremask_stride C"
      using assms(2) unfolding buffer_apart_def v by simp
    then show "c_buffer C + int i * c_maskna_itemsize C \<noteq> m0 + int j * c_maskna_stride C \<and>
               c_buffer C + int i * c_maskna_itemsize C \<noteq> w0 + int j * c_wheremask_stride C"
      by (simp add: m0_def w0_def algebra_simps)
  qed
  have cm: "chunk_mask_heap C v k h =
        maskand_loop h (c_buffer C) (c_maskna_itemsize C) m0 (c_maskna_stride C)
          w0 (c_wheremask_stride C) n"
    by (simp add: chunk_mask_heap_def v assms(1) maskand_def m0_def w0_def n_def)
  have a: "(chunk_mask_heap C v k h (c_buffer C + i * c_maskna_itemsize C) \<noteq> 0) =
           (h (m + (chunk_start C k + i) * c_maskna_stride C) \<noteq> 0 \<and>
            h (wm + (chunk_start C k + i) * c_wheremask_stride C) \<noteq> 0)"
    if "0 \<le> i" "i < chunk_count C count k" for i
  proof -
    have ni: "nat i < n" "int (nat i) = i" using that unfolding n_def by linarith+
    from maskand_loop_content[OF isz ap ni(1), of h] have
      "chunk_mask_heap C v k h (c_buffer C + i * c_maskna_itemsize C)
       = (if h (m0 + i * c_maskna_stride C) \<noteq> 0 \<and> h (w0 + i * c_wheremask_stride C) \<noteq> 0
          then 1 else 0)"
      unfolding cm ni(2) .
    moreover have "m0 + i * c_maskna_stride C = m + (chunk_start C k + i) * c_maskna_stride C"
                  "w0 + i * c_wheremask_stride C = wm + (chunk_start C k + i) * c_wheremask_stride C"
      by (simp_all add: m0_def w0_def algebra_simps)
    ultimately show ?thesis by simp
  qed
  have b: "chunk_mask_heap C v k h a = h a"
    if "\<forall>i. 0 \<le> i \<and> i < chunk_count C count k \<longrightarrow> a \<noteq> c_buffer C + i * c_maskna_itemsize C" for a
  proof -
    have "\<forall>i<n. a \<noteq> c_buffer C + int i * c_maskna_itemsize C"
    proof (intro allI impI)
      fix i assume "i < n"
      then have "0 \<le> int i \<and> int i < chunk_count C count k" unfolding n_def by linarith
      then show "a \<noteq> c_buffer C + int i * c_maskna_itemsize C" using that by blast
    qed
    from maskand_loop_frame[OF this] show ?thesis unfolding cm .
  qed
  show ?thesis using a b unfolding combined_mask_def v by simp
qed

lemma chunks_run:
  assumes B: "0 < c_buffersize C"
  shows "nat ((count - 1) div c_buffersize C) = n \<Longrightarrow>
         \<exists>w'. preservena_chunks C (d, s, m, wm, count) w = Some w' \<and>
              log w' = log w @ concat (map (chunk_events C (d, s, m, wm, count)) [0..<Suc n]) \<and>
              heap w' = fold (chunk_heap C (d, s, m, wm, count)) [0..<Suc n] (heap w)"
proof (induction n arbitrary: d s m wm count w)
  case 0
  then have "(count - 1) div c_buffersize C \<le> 0" by simp
  then have le: "count \<le> c_buffersize C" using B
    by (smt (verit) pos_imp_zdiv_pos_iff)
  obtain v' w' where b: "chunk_body C (d, s, m, wm, count) w = (v', w')"
    by (cases "chunk_body C (d, s, m, wm, count) w")
  from chunk_body_log[OF b] le have "snd (snd (snd (snd v'))) = 0"
    "log w' = log w @ chunk_events C (d, s, m, wm, count) 0"
    by (simp_all add: min_def)
  moreover from chunk_body_heap[OF b] have "heap w' = chunk_heap C (d, s, m, wm, count) 0 (heap w)" .
  ultimately show ?case using b by (subst preservena_chunks.simps) simp
next
  case (Suc n)
  then have "(count - 1) div c_buffersize C \<ge> 1" by simp
  have gt: "count > c_buffersize C"
  proof (rule ccontr)
    assume "\<not> count > c_buffersize C"
    then have lt: "count - 1 < c_buffersize C" by simp
    have "(count - 1) div c_buffersize C \<le> 0"
    proof (cases "0 \<le> count - 1")
      case True
      then show ?thesis using lt by (simp add: div_pos_pos_trivial)
    next
      case False
      then have "count - 1 < 0" by simp
      then have "(count - 1) div c_buffersize C < 0"
        using B pos_imp_zdiv_neg_iff[of "c_buffersize C" "count - 1"] by blast
      then show ?thesis by simp
    qed
    then show False using \<open>(count - 1) div c_buffersize C \<ge> 1\<close> by simp
  qed
  have "(count - c_buffersize C - 1) div c_buffersize C = (count - 1) div c_buffersize C - 1"
    using B div_add_self2[of "c_buffersize C" "count - c_buffersize C - 1"]
    by (simp add: algebra_simps)
  then have n': "nat ((count - c_buffersize C - 1) div c_buffersize C) = n"
    using Suc.prems by simp
  obtain v' w1 where b: "chunk_body C (d, s, m, wm, count) w = (v', w1)"
    by (cases "chunk_body C (d, s, m, wm, count) w")
  from chunk_body_log[OF b] gt have
    v': "v' = (d + c_buffersize C * c_dst_stride C, s + c_buffersize C * c_src_stride C,
               m + c_buffersize C * c_maskna_stride C,
               wm + c_buffersize C * c_wheremask_stride C,
               count - c_buffersize C)"
    and l1: "log w1 = log w @ chunk_events C (d, s, m, wm, count) 0"
    by (simp_all add: min_def)
  from chunk_body_heap[OF b] have h1: "heap w1 = chunk_heap C (d, s, m, wm, count) 0 (heap w)" .
  from Suc.IH[OF n', of "d + c_buffersize C * c_dst_stride C"
                 "s + c_buffersize C * c_src_stride C"
                 "m + c_buffersize C * c_maskna_stride C"
                 "wm + c_buffersize C * c_wheremask_stride C" w1]
  obtain w' where r: "preservena_chunks C v' w1 = Some w'"
    and l2: "log w' = log w1 @ concat (map (chunk_events C v') [0..<Suc n])"
    and h2: "heap w' = fold (chunk_heap C v') [0..<Suc n] (heap w1)"
    unfolding v' by blast
  have "map (chunk_events C v') [0..<Suc n]
        = map (chunk_events C (d, s, m, wm, count)) (map Suc [0..<Suc n])"
    unfolding v' by (rule nth_equalityI) (simp_all add: chunk_events_shift del: upt_Suc)
  also have su: "map Suc [0..<Suc n] = [1..<Suc (Suc n)]" by (simp only: map_Suc_upt) simp
  finally have sh: "map (chunk_events C v') [0..<Suc n]
                    = map (chunk_events C (d, s, m, wm, count)) [1..<Suc (Suc n)]" .
  have "chunk_heap C v' = chunk_heap C (d, s, m, wm, count) \<circ> Suc"
    unfolding v' by (rule ext) (simp add: chunk_heap_shift)
  then have "fold (chunk_heap C v') [0..<Suc n]
             = fold (chunk_heap C (d, s, m, wm, count)) (map Suc [0..<Suc n])"
    by (simp only: fold_map)
  then have hs: "fold (chunk_heap C v') [0..<Suc n]
             = fold (chunk_heap C (d, s, m, wm, count)) [1..<Suc (Suc n)]"
    unfolding su .
  have up: "[0..<Suc (Suc n)] = 0 # [1..<Suc (Suc n)]" by (simp add: upt_rec)
  then have "concat (map (chunk_events C (d, s, m, wm, count)) [0..<Suc (Suc n)])
        = chunk_events C (d, s, m, wm, count) 0 @
          concat (map (chunk_events C (d, s, m, wm, count)) [1..<Suc (Suc n)])"
    by (simp only: list.map concat.simps)
  then have "log w' = log w @ concat (map (chunk_events C (d, s, m, wm, count)) [0..<Suc (Suc n)])"
    using l1 l2 sh by simp
  moreover have "heap w' = fold (chunk_heap C (d, s, m, wm, count)) [0..<Suc (Suc n)] (heap w)"
    unfolding up h2 hs h1 by (simp only: fold.simps comp_def)
  moreover have "preservena_chunks C (d, s, m, wm, count) w = Some w'"
    using b r gt v' by (subst preservena_chunks.simps) simp
  ultimately show ?case by blast
qed

lemma runs_fold:
  assumes B: "0 < c_buffersize C"
  shows "\<exists>w'. fold (\<lambda>coord wo. Option.bind wo
                        (preservena_chunks C (fd coord, fs coord, fm coord, fw coord, n)))
                cs (Some w) = Some w' \<and>
           log w' = log w @
             concat (map (\<lambda>coord. concat (map (chunk_events C
                                                  (fd coord, fs coord, fm coord, fw coord, n))
                                               [0..<nchunks C n])) cs) \<and>
           heap w' = fold (\<lambda>coord. fold (chunk_heap C (fd coord, fs coord, fm coord, fw coord, n))
                                         [0..<nchunks C n]) cs (heap w)"
proof (induction cs arbitrary: w)
  case Nil
  show ?case by simp
next
  case (Cons c cs)
  from chunks_run[OF B refl, where count = n and d = "fd c" and s = "fs c" and m = "fm c"
                    and wm = "fw c" and w = w]
  obtain w1 where r: "preservena_chunks C (fd c, fs c, fm c, fw c, n) w = Some w1"
    and l1: "log w1 = log w @ concat (map (chunk_events C (fd c, fs c, fm c, fw c, n))
                                          [0..<nchunks C n])"
    and h1: "heap w1 = fold (chunk_heap C (fd c, fs c, fm c, fw c, n)) [0..<nchunks C n] (heap w)"
    unfolding nchunks_def Suc_eq_plus1 by blast
  from Cons.IH[of w1] obtain w' where
    f: "fold (\<lambda>coord wo. Option.bind wo
                 (preservena_chunks C (fd coord, fs coord, fm coord, fw coord, n)))
          cs (Some w1) = Some w'"
    and l2: "log w' = log w1 @
             concat (map (\<lambda>coord. concat (map (chunk_events C
                                                  (fd coord, fs coord, fm coord, fw coord, n))
                                               [0..<nchunks C n])) cs)"
    and h2: "heap w' = fold (\<lambda>coord. fold (chunk_heap C (fd coord, fs coord, fm coord, fw coord, n))
                                         [0..<nchunks C n]) cs (heap w1)"
    by blast
  show ?case using r f l1 l2 h1 h2 by simp
qed

lemma log_emit: "log (emit ev w) = log w @ [ev]"
  by (simp add: emit_def)

lemma heap_emit: "heap (emit ev w) = heap w"
  by (simp add: emit_def)

lemma pyerr_emit: "pyerr (emit ev w) = pyerr w"
  by (simp add: emit_def)

lemma run_result:
  assumes prep: "PyArray_PrepareFourRawArrayIter E ndim shape dst_data dst_strides
                   src_data src_strides maskna_data maskna_strides
                   wheremask_data wheremask_strides
                 = Some ((n, outer), (d, (ds0, dso)), (s, (ss0, sso)), (m, (ms0, mso)),
                         (wm, (ws0, wso)))"
    and buf: "PyArray_malloc E (NPY_ARRAY_ASSIGN_BUFFERSIZE E * elsize maskna_dtype) \<noteq> 0"
    and rv: "rv = (it_ndim (n, outer) = 1 \<and> s < d \<and> s + n * ss0 > d)"
    and al: "al = (raw_array_is_aligned E ndim dst_data dst_strides (alignment dst_dtype) \<and>
                   raw_array_is_aligned E ndim src_data src_strides (alignment src_dtype))"
    and gt: "PyArray_GetMaskedDTypeTransferFunction E al (entry0 src_strides)
               (if rv then - ds0 else ds0) (elsize maskna_dtype) src_dtype dst_dtype maskna_dtype
             = Inr (stransfer, needs_api)"
    and ga: "PyArray_GetMaskAndFunction E (if rv then - ms0 else ms0) maskna_dtype 0
               (if rv then - ws0 else ws0) wheremask_dtype 0 = Inr mand"
    and f: "fold (\<lambda>coord wo. Option.bind wo
              (preservena_chunks
                 \<lparr> c_buffersize = NPY_ARRAY_ASSIGN_BUFFERSIZE E,
                   c_maskand = mand, c_stransfer = stransfer,
                   c_buffer = PyArray_malloc E (NPY_ARRAY_ASSIGN_BUFFERSIZE E * elsize maskna_dtype),
                   c_maskna_itemsize = elsize maskna_dtype,
                   c_src_itemsize = elsize src_dtype,
                   c_dst_stride = (if rv then - ds0 else ds0),
                   c_src_stride = (if rv then - ss0 else ss0),
                   c_maskna_stride = (if rv then - ms0 else ms0),
                   c_wheremask_stride = (if rv then - ws0 else ws0) \<rparr>
                 ((if rv then d + (n - 1) * ds0 else d) + dot coord dso,
                  (if rv then s + (n - 1) * ss0 else s) + dot coord sso,
                  (if rv then m + (n - 1) * ms0 else m) + dot coord mso,
                  (if rv then wm + (n - 1) * ws0 else wm) + dot coord wso,
                  n)))
            (coords outer)
            (Some (emit (EvGetMaskAnd (if rv then - ms0 else ms0) (if rv then - ws0 else ws0))
                    (emit (EvGetMaskedDTypeTransfer al (entry0 src_strides)
                             (if rv then - ds0 else ds0) (elsize maskna_dtype))
                       (emit (EvMalloc (NPY_ARRAY_ASSIGN_BUFFERSIZE E * elsize maskna_dtype)) w))))
          = Some w3"
  shows "raw_array_wheremasked_assign_array_preservena E w ndim shape
             dst_dtype dst_data dst_strides src_dtype src_data src_strides
             maskna_dtype maskna_data maskna_strides
             wheremask_dtype wheremask_data wheremask_strides
           = Some (if needs_api \<and> pyerr w3 \<noteq> None then - 1 else 0,
                   emit (EvFree (PyArray_malloc E
                      (NPY_ARRAY_ASSIGN_BUFFERSIZE E * elsize maskna_dtype))) w3)"
proof (cases rv)
  case True
  then show ?thesis using prep buf gt ga f
    by (simp add: raw_array_wheremasked_assign_array_preservena_def Let_def neg0_def
          rv[symmetric] al[symmetric] emit_def)
next
  case False
  then show ?thesis using prep buf gt ga f
    by (simp add: raw_array_wheremasked_assign_array_preservena_def Let_def neg0_def
          rv[symmetric] al[symmetric] emit_def)
qed

text \<open>
  C9. The where-masked transfer that preserves NA (lines 216 to 365), when the iteration
  set-up, the allocation of the scratch buffer and both resolvers succeed and the buffer
  capacity is positive. The call returns. The scratch buffer is allocated once, for the
  capacity times the size of a mask element, and freed at the end. After the
  one-dimensional reversal of lines 279 to 289 (\<open>rv\<close>), every innermost run, one per
  coordinate of the outer dimensions, is processed as the chunks \<open>0\<close> to \<open>nchunks - 1\<close>:
  chunk \<open>k\<close> holds the minimum of the remaining count and the capacity; first the
  combination callable writes the chunk's mask to the scratch buffer from the chunk's
  NA-mask and where-mask elements, then the transfer callable runs on the chunk's
  destination and source elements with the scratch buffer as its mask. The log of the
  call is these calls in this order, at the four pointers advanced by the chunk's start
  times their innermost strides, and the memory after the call is the memory that these
  calls produce one after the other. Every chunk before the last is full, the next one
  starts where it ends, and the chunks partition the element indices \<open>0\<close> to \<open>n - 1\<close>.
  The combination callable is the one that \<^verbatim>\<open>PyArray_GetMaskAndFunction\<close> returned for
  the two innermost mask strides with both invert flags 0; when it is the callable
  of the specification (\<open>maskand\<close>), then after the combination step of a chunk the
  buffer element \<open>i\<close> is true exactly when element \<open>i\<close> of the chunk is not NA in the
  NA mask and true in the where-mask, and nothing but the buffer has changed, provided
  that the buffer elements are none of the chunk's mask elements.
\<close>

theorem C9_chunked_preservena:
  assumes prep: "PyArray_PrepareFourRawArrayIter E ndim shape dst_data dst_strides
                   src_data src_strides maskna_data maskna_strides
                   wheremask_data wheremask_strides
                 = Some ((n, outer), (d, (ds0, dso)), (s, (ss0, sso)), (m, (ms0, mso)),
                         (wm, (ws0, wso)))"
    and buf: "buf = PyArray_malloc E (NPY_ARRAY_ASSIGN_BUFFERSIZE E * elsize maskna_dtype)"
             "buf \<noteq> 0"
    and B: "0 < NPY_ARRAY_ASSIGN_BUFFERSIZE E"
    and rv: "rv = (it_ndim (n, outer) = 1 \<and> s < d \<and> s + n * ss0 > d)"
    and C: "C = \<lparr> c_buffersize = NPY_ARRAY_ASSIGN_BUFFERSIZE E,
                   c_maskand = mand, c_stransfer = stransfer, c_buffer = buf,
                   c_maskna_itemsize = elsize maskna_dtype,
                   c_src_itemsize = elsize src_dtype,
                   c_dst_stride = (if rv then - ds0 else ds0),
                   c_src_stride = (if rv then - ss0 else ss0),
                   c_maskna_stride = (if rv then - ms0 else ms0),
                   c_wheremask_stride = (if rv then - ws0 else ws0) \<rparr>"
    and V: "V = (\<lambda>coord. ((if rv then d + (n - 1) * ds0 else d) + dot coord dso,
                           (if rv then s + (n - 1) * ss0 else s) + dot coord sso,
                           (if rv then m + (n - 1) * ms0 else m) + dot coord mso,
                           (if rv then wm + (n - 1) * ws0 else wm) + dot coord wso,
                           n))"
    and al: "al = (raw_array_is_aligned E ndim dst_data dst_strides (alignment dst_dtype) \<and>
                   raw_array_is_aligned E ndim src_data src_strides (alignment src_dtype))"
    and gt: "PyArray_GetMaskedDTypeTransferFunction E al (entry0 src_strides)
               (c_dst_stride C) (elsize maskna_dtype) src_dtype dst_dtype maskna_dtype
             = Inr (stransfer, needs_api)"
    and ga: "PyArray_GetMaskAndFunction E (c_maskna_stride C) maskna_dtype 0
               (c_wheremask_stride C) wheremask_dtype 0 = Inr mand"
  shows "\<exists>w'. raw_array_wheremasked_assign_array_preservena E w ndim shape
                dst_dtype dst_data dst_strides src_dtype src_data src_strides
                maskna_dtype maskna_data maskna_strides
                wheremask_dtype wheremask_data wheremask_strides
              = Some (if needs_api \<and> pyerr w' \<noteq> None then - 1 else 0, w') \<and>
           log w' = log w @
             [EvMalloc (NPY_ARRAY_ASSIGN_BUFFERSIZE E * elsize maskna_dtype),
              EvGetMaskedDTypeTransfer al (entry0 src_strides) (c_dst_stride C)
                (elsize maskna_dtype),
              EvGetMaskAnd (c_maskna_stride C) (c_wheremask_stride C)] @
             concat (map (\<lambda>coord. concat (map (chunk_events C (V coord)) [0..<nchunks C n]))
                         (coords outer)) @
             [EvFree buf] \<and>
           heap w' = fold (\<lambda>coord. fold (chunk_heap C (V coord)) [0..<nchunks C n])
                          (coords outer) (heap w) \<and>
           (\<forall>k. Suc k < nchunks C n \<longrightarrow>
                chunk_count C n k = NPY_ARRAY_ASSIGN_BUFFERSIZE E \<and>
                chunk_start C (Suc k) = chunk_start C k + chunk_count C n k) \<and>
           (\<Union>k<nchunks C n. {chunk_start C k ..< chunk_start C k + chunk_count C n k})
             = {0..<n} \<and>
           (\<forall>k k'. k \<noteq> k' \<longrightarrow>
                {chunk_start C k ..< chunk_start C k + chunk_count C n k} \<inter>
                {chunk_start C k' ..< chunk_start C k' + chunk_count C n k'} = {}) \<and>
           (mand = maskand \<longrightarrow>
              (\<forall>coord k h. buffer_apart C (V coord) k \<longrightarrow>
                 combined_mask C (V coord) k h (chunk_mask_heap C (V coord) k h)))"
proof -
  have Bp: "0 < c_buffersize C" and cb: "c_buffersize C = NPY_ARRAY_ASSIGN_BUFFERSIZE E"
    using B by (simp_all add: C)
  define w2 where "w2 =
    emit (EvGetMaskAnd (if rv then - ms0 else ms0) (if rv then - ws0 else ws0))
      (emit (EvGetMaskedDTypeTransfer al (entry0 src_strides) (if rv then - ds0 else ds0)
               (elsize maskna_dtype))
         (emit (EvMalloc (NPY_ARRAY_ASSIGN_BUFFERSIZE E * elsize maskna_dtype)) w))"
  have "\<exists>w3. fold (\<lambda>coord wo. Option.bind wo (preservena_chunks C (V coord)))
               (coords outer) (Some w2) = Some w3 \<and>
             log w3 = log w2 @
               concat (map (\<lambda>coord. concat (map (chunk_events C (V coord)) [0..<nchunks C n]))
                           (coords outer)) \<and>
             heap w3 = fold (\<lambda>coord. fold (chunk_heap C (V coord)) [0..<nchunks C n])
                            (coords outer) (heap w2)"
    unfolding V
    by (rule runs_fold[OF Bp,
      where fd = "\<lambda>coord. (if rv then d + (n - 1) * ds0 else d) + dot coord dso"
        and fs = "\<lambda>coord. (if rv then s + (n - 1) * ss0 else s) + dot coord sso"
        and fm = "\<lambda>coord. (if rv then m + (n - 1) * ms0 else m) + dot coord mso"
        and fw = "\<lambda>coord. (if rv then wm + (n - 1) * ws0 else wm) + dot coord wso"])
  then obtain w3 where
    f: "fold (\<lambda>coord wo. Option.bind wo (preservena_chunks C (V coord))) (coords outer) (Some w2)
        = Some w3"
    and l3: "log w3 = log w2 @
               concat (map (\<lambda>coord. concat (map (chunk_events C (V coord)) [0..<nchunks C n]))
                           (coords outer))"
    and h3: "heap w3 = fold (\<lambda>coord. fold (chunk_heap C (V coord)) [0..<nchunks C n])
                            (coords outer) (heap w2)"
    by (elim exE conjE)
  have gt': "PyArray_GetMaskedDTypeTransferFunction E al (entry0 src_strides)
               (if rv then - ds0 else ds0) (elsize maskna_dtype) src_dtype dst_dtype maskna_dtype
             = Inr (stransfer, needs_api)"
    using gt by (simp add: C)
  have ga': "PyArray_GetMaskAndFunction E (if rv then - ms0 else ms0) maskna_dtype 0
               (if rv then - ws0 else ws0) wheremask_dtype 0 = Inr mand"
    using ga by (simp add: C)
  have cs: "c_dst_stride C = (if rv then - ds0 else ds0)"
           "c_maskna_stride C = (if rv then - ms0 else ms0)"
           "c_wheremask_stride C = (if rv then - ws0 else ws0)"
    by (simp_all add: C)
  have r: "raw_array_wheremasked_assign_array_preservena E w ndim shape
             dst_dtype dst_data dst_strides src_dtype src_data src_strides
             maskna_dtype maskna_data maskna_strides
             wheremask_dtype wheremask_data wheremask_strides
           = Some (if needs_api \<and> pyerr (emit (EvFree buf) w3) \<noteq> None then - 1 else 0,
                   emit (EvFree buf) w3)"
    unfolding pyerr_emit buf(1)
    by (rule run_result[OF prep buf(2)[unfolded buf(1)] rv al gt' ga'
                           f[unfolded C V w2_def buf(1)]])
  have l: "log (emit (EvFree buf) w3) = log w @
             [EvMalloc (NPY_ARRAY_ASSIGN_BUFFERSIZE E * elsize maskna_dtype),
              EvGetMaskedDTypeTransfer al (entry0 src_strides) (c_dst_stride C)
                (elsize maskna_dtype),
              EvGetMaskAnd (c_maskna_stride C) (c_wheremask_stride C)] @
             concat (map (\<lambda>coord. concat (map (chunk_events C (V coord)) [0..<nchunks C n]))
                         (coords outer)) @
             [EvFree buf]"
    by (simp add: log_emit l3 w2_def cs)
  have h: "heap (emit (EvFree buf) w3)
           = fold (\<lambda>coord. fold (chunk_heap C (V coord)) [0..<nchunks C n])
                  (coords outer) (heap w)"
    by (simp add: heap_emit h3 w2_def)
  have a1: "\<forall>k. Suc k < nchunks C n \<longrightarrow>
                chunk_count C n k = NPY_ARRAY_ASSIGN_BUFFERSIZE E \<and>
                chunk_start C (Suc k) = chunk_start C k + chunk_count C n k"
    using full_chunk[OF Bp] cb by (simp add: chunk_start_def algebra_simps)
  note a2 = chunks_cover[OF Bp, of n]
  have a3: "\<forall>k k'. k \<noteq> k' \<longrightarrow>
                {chunk_start C k ..< chunk_start C k + chunk_count C n k} \<inter>
                {chunk_start C k' ..< chunk_start C k' + chunk_count C n k'} = {}"
    using chunks_disjoint[OF Bp] by blast
  have a4: "mand = maskand \<longrightarrow>
              (\<forall>coord k h. buffer_apart C (V coord) k \<longrightarrow>
                 combined_mask C (V coord) k h (chunk_mask_heap C (V coord) k h))"
  proof (intro impI allI)
    fix coord k h
    assume "mand = maskand" "buffer_apart C (V coord) k"
    moreover have "c_maskand C = mand" by (simp add: C)
    ultimately show "combined_mask C (V coord) k h (chunk_mask_heap C (V coord) k h)"
      using maskand_combined by simp
  qed
  show ?thesis
    apply (rule exI[of _ "emit (EvFree buf) w3"])
    apply (intro conjI)
          apply (rule r)
         apply (rule l)
        apply (rule h)
       apply (rule a1)
      apply (rule a2)
     apply (rule a3)
    apply (rule a4)
    done
qed

theorem C9_witness:
  "map_option (log \<circ> snd)
     (raw_array_wheremasked_assign_array_preservena (spec_raw_env id 1000 2)
        (world0 masks_heap) 1 [5] int8 1 [1] int8 10 [1] int8 100 [1] int8 200 [1])
   = Some [EvMalloc 2, EvGetMaskedDTypeTransfer True 1 1 1, EvGetMaskAnd 1 1,
           EvMaskAnd 1000 1 100 1 200 1 2, EvMaskedTransfer 1 1 10 1 1000 1 2 1,
           EvMaskAnd 1000 1 102 1 202 1 2, EvMaskedTransfer 3 1 12 1 1000 1 2 1,
           EvMaskAnd 1000 1 104 1 204 1 1, EvMaskedTransfer 5 1 14 1 1000 1 1 1,
           EvFree 1000] \<and>
   map_option (peek [1, 2, 3, 4, 5, 1000, 1001])
     (raw_array_wheremasked_assign_array_preservena (spec_raw_env id 1000 2)
        (world0 masks_heap) 1 [5] int8 1 [1] int8 10 [1] int8 100 [1] int8 200 [1])
   = Some [10, 2, 12, 4, 14, 1, 0] \<and>
   chunk_mask_heap ex_ctx (1, 10, 100, 200, 5) 1 masks_heap 1000 \<noteq> 0 \<and>
   chunk_mask_heap ex_ctx (1, 10, 100, 200, 5) 1 masks_heap 1001 = 0"
proof -
  let ?E = "spec_raw_env id 1000 2"
  let ?V = "\<lambda>coord. (1 + dot coord [], 10 + dot coord [], 100 + dot coord [],
                       200 + dot coord [], 5::int)"
  have prep: "PyArray_PrepareFourRawArrayIter ?E 1 [5] 1 [1] 10 [1] 100 [1] 200 [1]
              = Some ((5, []), (1, (1, [])), (10, (1, [])), (100, (1, [])), (200, (1, [])))"
    by (simp add: spec_raw_env_def spec_PrepareFour_def dimvec_of_def)
  have buf: "1000 = PyArray_malloc ?E (NPY_ARRAY_ASSIGN_BUFFERSIZE ?E * elsize int8)"
            "(1000::int) \<noteq> 0"
    by (simp_all add: spec_raw_env_def)
  have B: "0 < NPY_ARRAY_ASSIGN_BUFFERSIZE ?E" by (simp add: spec_raw_env_def)
  have rv: "False = (it_ndim (5, []) = 1 \<and> (10::int) < 1 \<and> 10 + 5 * 1 > (1::int))" by simp
  have C: "ex_ctx = \<lparr> c_buffersize = NPY_ARRAY_ASSIGN_BUFFERSIZE ?E,
                   c_maskand = maskand, c_stransfer = masked_transfer id 1, c_buffer = 1000,
                   c_maskna_itemsize = elsize int8,
                   c_src_itemsize = elsize int8,
                   c_dst_stride = (if False then - 1 else 1),
                   c_src_stride = (if False then - 1 else 1),
                   c_maskna_stride = (if False then - 1 else 1),
                   c_wheremask_stride = (if False then - 1 else 1) \<rparr>"
    by (simp add: ex_ctx_def spec_raw_env_def int8_def)
  have V: "?V = (\<lambda>coord. ((if False then 1 + (5 - 1) * 1 else 1) + dot coord [],
                           (if False then 10 + (5 - 1) * 1 else 10) + dot coord [],
                           (if False then 100 + (5 - 1) * 1 else 100) + dot coord [],
                           (if False then 200 + (5 - 1) * 1 else 200) + dot coord [],
                           5))"
    by simp
  have al: "True = (raw_array_is_aligned ?E 1 1 [1] (alignment int8) \<and>
                   raw_array_is_aligned ?E 1 10 [1] (alignment int8))"
    by (simp add: spec_raw_env_def spec_is_aligned_def int8_def)
  have gt: "PyArray_GetMaskedDTypeTransferFunction ?E True (entry0 [1])
               (c_dst_stride ex_ctx) (elsize int8) int8 int8 int8
             = Inr (masked_transfer id 1, False)"
    by (simp add: spec_raw_env_def int8_def)
  have ga: "PyArray_GetMaskAndFunction ?E (c_maskna_stride ex_ctx) int8 0
               (c_wheremask_stride ex_ctx) int8 0 = Inr maskand"
    by (simp add: spec_raw_env_def)
  have n: "nchunks ex_ctx 5 = 3" by (simp add: nchunks_def ex_ctx_def)
  have l: "[0..<3] = [0, 1, 2]" by (simp add: upt_rec)
  from C9_chunked_preservena [OF prep buf B rv C V al gt ga, of "world0 masks_heap"]
  obtain w' where
    r: "raw_array_wheremasked_assign_array_preservena ?E (world0 masks_heap) 1 [5]
          int8 1 [1] int8 10 [1] int8 100 [1] int8 200 [1]
        = Some (if False \<and> pyerr w' \<noteq> None then - 1 else 0, w')"
    and lg: "log w' = log (world0 masks_heap) @
             [EvMalloc (NPY_ARRAY_ASSIGN_BUFFERSIZE ?E * elsize int8),
              EvGetMaskedDTypeTransfer True (entry0 [1]) (c_dst_stride ex_ctx) (elsize int8),
              EvGetMaskAnd (c_maskna_stride ex_ctx) (c_wheremask_stride ex_ctx)] @
             concat (map (\<lambda>coord. concat (map (chunk_events ex_ctx (?V coord))
                                               [0..<nchunks ex_ctx 5]))
                         (coords [])) @
             [EvFree 1000]"
    and cm: "maskand = maskand \<longrightarrow>
              (\<forall>coord k h. buffer_apart ex_ctx (?V coord) k \<longrightarrow>
                 combined_mask ex_ctx (?V coord) k h (chunk_mask_heap ex_ctx (?V coord) k h))"
    by blast
  have v0: "?V [] = (1, 10, 100, 200, 5)" by (simp add: dot_def)
  have "buffer_apart ex_ctx (1, 10, 100, 200, 5) 1"
    by (auto simp: buffer_apart_def ex_ctx_def chunk_count_def chunk_start_def)
  with cm have "combined_mask ex_ctx (1, 10, 100, 200, 5) 1 masks_heap
                  (chunk_mask_heap ex_ctx (1, 10, 100, 200, 5) 1 masks_heap)"
    unfolding v0[symmetric] by blast
  then have i: "\<forall>i. 0 \<le> i \<and> i < 2 \<longrightarrow>
           (chunk_mask_heap ex_ctx (1, 10, 100, 200, 5) 1 masks_heap (1000 + i) \<noteq> 0) =
           (masks_heap (102 + i) \<noteq> 0 \<and> masks_heap (202 + i) \<noteq> 0)"
    by (simp add: combined_mask_def ex_ctx_def chunk_count_def chunk_start_def algebra_simps)
  have c: "chunk_mask_heap ex_ctx (1, 10, 100, 200, 5) 1 masks_heap 1000 \<noteq> 0 \<and>
           chunk_mask_heap ex_ctx (1, 10, 100, 200, 5) 1 masks_heap 1001 = 0"
    using i[rule_format, of 0] i[rule_format, of 1] by (simp add: masks_heap_def ramp_def)
  have a: "map_option (log \<circ> snd)
     (raw_array_wheremasked_assign_array_preservena ?E
        (world0 masks_heap) 1 [5] int8 1 [1] int8 10 [1] int8 100 [1] int8 200 [1])
   = Some [EvMalloc 2, EvGetMaskedDTypeTransfer True 1 1 1, EvGetMaskAnd 1 1,
           EvMaskAnd 1000 1 100 1 200 1 2, EvMaskedTransfer 1 1 10 1 1000 1 2 1,
           EvMaskAnd 1000 1 102 1 202 1 2, EvMaskedTransfer 3 1 12 1 1000 1 2 1,
           EvMaskAnd 1000 1 104 1 204 1 1, EvMaskedTransfer 5 1 14 1 1000 1 1 1,
           EvFree 1000]"
    unfolding r using lg unfolding n l
    by (simp add: chunk_events_def chunk_start_def chunk_count_def ex_ctx_def world0_def
          spec_raw_env_def int8_def entry0_def dot_def)
  have b: "map_option (peek [1, 2, 3, 4, 5, 1000, 1001])
     (raw_array_wheremasked_assign_array_preservena (spec_raw_env id 1000 2)
        (world0 masks_heap) 1 [5] int8 1 [1] int8 10 [1] int8 100 [1] int8 200 [1])
   = Some [10, 2, 12, 4, 14, 1, 0]"
    by code_simp
  show ?thesis using a b c by blast
qed

subsection \<open>NA in the source, none in the destination\<close>

text \<open>
  C6, as stated, fails. The source of two elements has an NA mask whose first byte is
  cleared, so it contains an NA; the destination has no NA mask. With no where-mask and a
  destination that is not writeable, the call fails with \<open>ReadOnlyTarget\<close>, not with
  \<open>UnsupportedNA\<close>: the writability check (line 453) comes before the scan of the source
  (line 484). And the scan is restricted by the where-mask, which line 484 passes on: with
  a writeable destination and a where-mask that is false at the first position, the call
  returns 0 and raises nothing.
\<close>

theorem C6_counterexample:
  "PyArray_ContainsNA na_heap (ex_vec_na 10 2 1 100) None = 1 \<and>
   map_option fst
     (PyArray_AssignArray 1 ex_env (world0 na_heap)
        ((ex_vec 1 2 1)\<lparr>PyArray_ISWRITEABLE := False\<rparr>) (ex_vec_na 10 2 1 100) None
        NPY_SAFE_CASTING False None) = Some (- 1) \<and>
   map_option (pyerr \<circ> snd)
     (PyArray_AssignArray 1 ex_env (world0 na_heap)
        ((ex_vec 1 2 1)\<lparr>PyArray_ISWRITEABLE := False\<rparr>) (ex_vec_na 10 2 1 100) None
        NPY_SAFE_CASTING False None) = Some (Some ReadOnlyTarget) \<and>
   map_option fst
     (PyArray_AssignArray 1 ex_env (world0 na_heap) (ex_vec 1 2 1)
        (ex_vec_na 10 2 1 100) (Some (ex_vec 200 2 1)) NPY_SAFE_CASTING False None) = Some 0 \<and>
   map_option (pyerr \<circ> snd)
     (PyArray_AssignArray 1 ex_env (world0 na_heap) (ex_vec 1 2 1)
        (ex_vec_na 10 2 1 100) (Some (ex_vec 200 2 1)) NPY_SAFE_CASTING False None) = Some None"
  by code_simp

text \<open>
  C6, amended. The source is not 0-dimensional and has an NA mask, the destination has
  none and is writeable, the views do not pass the self-assignment test, the cast is
  allowed and \<^verbatim>\<open>preservewhichna\<close> is \<^verbatim>\<open>NULL\<close>. If some element of the source is NA
  (its NA-mask byte is cleared) at a position where the where-mask, broadcast to the
  source's shape, is true (at any position when there is no where-mask), the call fails
  with \<open>UnsupportedNA\<close>, nothing else being changed.
\<close>

theorem C6_na_into_plain_destination:
  assumes "PyArray_NDIM src \<noteq> 0"
    and "\<not> redundant_copy dst src"
    and "PyArray_ISWRITEABLE dst"
    and "PyArray_CanCastTypeTo E (PyArray_DESCR src) (PyArray_DESCR dst) casting"
    and "PyArray_HASMASKNA src" and "\<not> PyArray_HASMASKNA dst"
    and "case wheremask of
           None \<Rightarrow>
             \<exists>c \<in> set (coords (PyArray_DIMS src)).
               heap w (PyArray_MASKNA_DATA src + dot c (PyArray_MASKNA_STRIDES src)) = 0
         | Some wm \<Rightarrow>
             \<exists>wheremask_strides.
               broadcast_strides (PyArray_NDIM src) (PyArray_DIMS src)
                 (PyArray_NDIM wm) (PyArray_DIMS wm) (PyArray_STRIDES wm) = Some wheremask_strides \<and>
               (\<exists>c \<in> set (coords (PyArray_DIMS src)).
                  heap w (PyArray_DATA wm + dot c wheremask_strides) \<noteq> 0 \<and>
                  heap w (PyArray_MASKNA_DATA src + dot c (PyArray_MASKNA_STRIDES src)) = 0)"
  shows "PyArray_AssignArray (Suc depth) E w dst src wheremask casting preservena None
         = Some (-1, PyErr_Set UnsupportedNA w)"
proof -
  have "PyArray_ContainsNA (heap w) src wheremask = 1"
    using assms(5,7) by (auto simp: PyArray_ContainsNA_def split: option.splits)
  then show ?thesis using assms(1-6) by (simp add: Let_def)
qed

theorem C6_witness:
  "PyArray_AssignArray 1 ex_env (world0 na_heap) (ex_vec 1 2 1) (ex_vec_na 10 2 1 100) None
     NPY_SAFE_CASTING False None = Some (-1, PyErr_Set UnsupportedNA (world0 na_heap)) \<and>
   PyArray_AssignArray 1 ex_env (world0 na_heap) (ex_vec 1 2 1) (ex_vec_na 10 2 1 100)
     (Some (ex_vec 300 2 1)) NPY_SAFE_CASTING False None
     = Some (-1, PyErr_Set UnsupportedNA (world0 na_heap))"
proof -
  have h1: "PyArray_NDIM (ex_vec_na 10 2 1 100) \<noteq> 0"
    by (simp add: PyArray_NDIM_def ex_vec_na_def ex_vec_def ex_view_def)
  have h2: "\<not> redundant_copy (ex_vec 1 2 1) (ex_vec_na 10 2 1 100)"
    by (simp add: redundant_copy_def ex_vec_na_def ex_vec_def ex_view_def)
  have h3: "PyArray_ISWRITEABLE (ex_vec 1 2 1)"
    by (simp add: ex_vec_def ex_view_def)
  have h4: "PyArray_CanCastTypeTo ex_env (PyArray_DESCR (ex_vec_na 10 2 1 100))
              (PyArray_DESCR (ex_vec 1 2 1)) NPY_SAFE_CASTING"
    by (simp add: ex_env_def)
  have h5: "PyArray_HASMASKNA (ex_vec_na 10 2 1 100)"
    by (simp add: ex_vec_na_def)
  have h6: "\<not> PyArray_HASMASKNA (ex_vec 1 2 1)"
    by (simp add: ex_vec_def ex_view_def)
  have "\<exists>c \<in> set (coords (PyArray_DIMS (ex_vec_na 10 2 1 100))).
          heap (world0 na_heap)
            (PyArray_MASKNA_DATA (ex_vec_na 10 2 1 100) +
             dot c (PyArray_MASKNA_STRIDES (ex_vec_na 10 2 1 100))) = 0"
    by code_simp
  then have h7: "case None of
           None \<Rightarrow>
             \<exists>c \<in> set (coords (PyArray_DIMS (ex_vec_na 10 2 1 100))).
               heap (world0 na_heap)
                 (PyArray_MASKNA_DATA (ex_vec_na 10 2 1 100) +
                  dot c (PyArray_MASKNA_STRIDES (ex_vec_na 10 2 1 100))) = 0
         | Some wm \<Rightarrow>
             \<exists>wheremask_strides.
               broadcast_strides (PyArray_NDIM (ex_vec_na 10 2 1 100))
                 (PyArray_DIMS (ex_vec_na 10 2 1 100))
                 (PyArray_NDIM wm) (PyArray_DIMS wm) (PyArray_STRIDES wm)
                 = Some wheremask_strides \<and>
               (\<exists>c \<in> set (coords (PyArray_DIMS (ex_vec_na 10 2 1 100))).
                  heap (world0 na_heap) (PyArray_DATA wm + dot c wheremask_strides) \<noteq> 0 \<and>
                  heap (world0 na_heap)
                    (PyArray_MASKNA_DATA (ex_vec_na 10 2 1 100) +
                     dot c (PyArray_MASKNA_STRIDES (ex_vec_na 10 2 1 100))) = 0)"
    by simp
  have "broadcast_strides (PyArray_NDIM (ex_vec_na 10 2 1 100))
          (PyArray_DIMS (ex_vec_na 10 2 1 100))
          (PyArray_NDIM (ex_vec 300 2 1)) (PyArray_DIMS (ex_vec 300 2 1))
          (PyArray_STRIDES (ex_vec 300 2 1)) = Some [1] \<and>
        (\<exists>c \<in> set (coords (PyArray_DIMS (ex_vec_na 10 2 1 100))).
           heap (world0 na_heap) (PyArray_DATA (ex_vec 300 2 1) + dot c [1]) \<noteq> 0 \<and>
           heap (world0 na_heap)
             (PyArray_MASKNA_DATA (ex_vec_na 10 2 1 100) +
              dot c (PyArray_MASKNA_STRIDES (ex_vec_na 10 2 1 100))) = 0)"
    by code_simp
  then have h8: "case Some (ex_vec 300 2 1) of
           None \<Rightarrow>
             \<exists>c \<in> set (coords (PyArray_DIMS (ex_vec_na 10 2 1 100))).
               heap (world0 na_heap)
                 (PyArray_MASKNA_DATA (ex_vec_na 10 2 1 100) +
                  dot c (PyArray_MASKNA_STRIDES (ex_vec_na 10 2 1 100))) = 0
         | Some wm \<Rightarrow>
             \<exists>wheremask_strides.
               broadcast_strides (PyArray_NDIM (ex_vec_na 10 2 1 100))
                 (PyArray_DIMS (ex_vec_na 10 2 1 100))
                 (PyArray_NDIM wm) (PyArray_DIMS wm) (PyArray_STRIDES wm)
                 = Some wheremask_strides \<and>
               (\<exists>c \<in> set (coords (PyArray_DIMS (ex_vec_na 10 2 1 100))).
                  heap (world0 na_heap) (PyArray_DATA wm + dot c wheremask_strides) \<noteq> 0 \<and>
                  heap (world0 na_heap)
                    (PyArray_MASKNA_DATA (ex_vec_na 10 2 1 100) +
                     dot c (PyArray_MASKNA_STRIDES (ex_vec_na 10 2 1 100))) = 0)"
    unfolding option.case by (rule exI[of _ "[1]"])
  from C6_na_into_plain_destination [OF h1 h2 h3 h4 h5 h6 h7, of 0 False]
       C6_na_into_plain_destination [OF h1 h2 h3 h4 h5 h6 h8, of 0 False]
  show ?thesis by simp
qed

subsection \<open>The temporary copy of an overlapping source\<close>

lemma assign_unmasked_Some:
  "\<exists>r. assign_unmasked E w dst src shm ss sms preservena pw = Some r"
  by (simp add: assign_unmasked_def and_then_def finish_def Let_def split: prod.splits)

lemma no_copy_returns:
  assumes "\<not> needs_copy dst src"
  shows "\<exists>r. PyArray_AssignArray (Suc depth) E w dst src None casting preservena pw = Some r"
proof -
  have a: "\<exists>r. assign_broadcast E w dst src shm None preservena q = Some r" for shm q
    using assign_unmasked_Some
    by (simp add: assign_broadcast_def split: option.splits)
  have b: "\<exists>r. release False src (assign_broadcast E w dst src shm None preservena q) = Some r"
    for shm q
    using a[of shm q] by (auto simp: release_def)
  show ?thesis using assms b
    by (auto simp: Let_def split: option.splits)
qed

text \<open>
  C2, as stated, fails: a call leaves before the overlap handling when it passes the
  self-assignment test or fails an earlier check. A two-dimensional view assigned to
  itself overlaps itself, and the call returns 0 with an empty log: no temporary is
  allocated. A read-only destination with an overlapping source of opposite stride fails
  with \<open>ReadOnlyTarget\<close>, again without a temporary.
\<close>

theorem C2_counterexample:
  "needs_copy (ex_view 1 [2, 2] [2, 1]) (ex_view 1 [2, 2] [2, 1]) \<and>
   PyArray_AssignArray 2 ex_env (world0 ramp) (ex_view 1 [2, 2] [2, 1]) (ex_view 1 [2, 2] [2, 1])
     None NPY_SAFE_CASTING False None = Some (0, world0 ramp) \<and>
   log (world0 ramp) = [] \<and>
   needs_copy ((ex_vec 1 4 1)\<lparr>PyArray_ISWRITEABLE := False\<rparr>) (ex_vec 4 4 (- 1)) \<and>
   PyArray_AssignArray 2 ex_env (world0 ramp) ((ex_vec 1 4 1)\<lparr>PyArray_ISWRITEABLE := False\<rparr>)
     (ex_vec 4 4 (- 1)) None NPY_SAFE_CASTING False None
     = Some (- 1, PyErr_Set ReadOnlyTarget (world0 ramp))"
proof -
  have a: "needs_copy (ex_view 1 [2, 2] [2, 1]) (ex_view 1 [2, 2] [2, 1])"
    by code_simp
  have b: "needs_copy ((ex_vec 1 4 1)\<lparr>PyArray_ISWRITEABLE := False\<rparr>) (ex_vec 4 4 (- 1))"
    by code_simp
  have c: "PyArray_AssignArray 2 ex_env (world0 ramp) (ex_view 1 [2, 2] [2, 1])
             (ex_view 1 [2, 2] [2, 1]) None NPY_SAFE_CASTING False None = Some (0, world0 ramp)"
    by (simp add: numeral_2_eq_2 redundant_copy_def PyArray_CompareLists_def PyArray_NDIM_def
          ex_view_def)
  have d: "PyArray_AssignArray 2 ex_env (world0 ramp)
             ((ex_vec 1 4 1)\<lparr>PyArray_ISWRITEABLE := False\<rparr>)
             (ex_vec 4 4 (- 1)) None NPY_SAFE_CASTING False None
           = Some (- 1, PyErr_Set ReadOnlyTarget (world0 ramp))"
    by (simp add: numeral_2_eq_2 redundant_copy_def PyArray_CompareLists_def PyArray_NDIM_def
          ex_vec_def ex_view_def)
  show ?thesis using a b c d by (simp add: world0_def)
qed

text \<open>
  C2, amended. The call reaches the overlap handling: the source is not 0-dimensional, the
  views do not pass the self-assignment test, the destination is writeable, the cast is
  allowed, \<^verbatim>\<open>preservewhichna\<close> is \<^verbatim>\<open>NULL\<close> and the NA scan finds nothing. The
  footprints overlap, and the destination has two or more dimensions or one dimension
  with a stride of the sign opposite to the source's innermost stride. Then the function
  asks for a temporary like the destination and, when the source has an NA mask, for an NA
  mask of the temporary. If the first allocation fails the call fails; if the second
  fails the temporary is released and the call fails. Otherwise it assigns the source to
  the temporary by a call of itself without where-mask, with unsafe casting and without
  \<^verbatim>\<open>preservena\<close>; this inner call has a result when the temporary does not overlap
  the source. If the inner call fails, the temporary is released and the call fails;
  otherwise the rest of the call (lines 538 to 798) runs with the temporary in the place
  of the source, and the temporary is released after it, whether the rest reached
  \<^verbatim>\<open>finish\<close> or \<^verbatim>\<open>fail\<close>.
\<close>

theorem C2_temporary_copy:
  assumes "PyArray_NDIM src \<noteq> 0"
    and "\<not> redundant_copy dst src"
    and "PyArray_ISWRITEABLE dst"
    and "PyArray_CanCastTypeTo E (PyArray_DESCR src) (PyArray_DESCR dst) casting"
    and "(if PyArray_HASMASKNA src \<and> \<not> PyArray_HASMASKNA dst
          then PyArray_ContainsNA (heap w) src wheremask else 0) = 0"
    and "arrays_overlap src dst"
    and "PyArray_NDIM dst > 1 \<or>
         (PyArray_NDIM dst = 1 \<and>
          entry (PyArray_STRIDES dst) 0 * entry (PyArray_STRIDES src) (PyArray_NDIM src - 1) < 0)"
  shows "case PyArray_NewLikeArray E dst of
           None \<Rightarrow>
             PyArray_AssignArray (Suc (Suc depth)) E w dst src wheremask casting preservena None
               = Some (-1, PyErr_Set AllocationFailure w)
         | Some tmp0 \<Rightarrow>
            (case (if PyArray_HASMASKNA src then PyArray_AllocateMaskNA E (heap w) tmp0
                   else Some (tmp0, heap w)) of
               None \<Rightarrow>
                 PyArray_AssignArray (Suc (Suc depth)) E w dst src wheremask casting preservena None
                   = Some (-1, emit (EvDecref (array_obj tmp0))
                                 (PyErr_Set AllocationFailure
                                    (emit (EvNewLikeArray (array_obj tmp0)) w)))
             | Some (tmp, h) \<Rightarrow>
                 (\<not> arrays_overlap src tmp \<longrightarrow>
                    (\<exists>r. PyArray_AssignArray (Suc depth) E
                            ((emit (EvNewLikeArray (array_obj tmp0)) w)\<lparr>heap := h\<rparr>)
                            tmp src None NPY_UNSAFE_CASTING False None = Some r)) \<and>
                 (case PyArray_AssignArray (Suc depth) E
                         ((emit (EvNewLikeArray (array_obj tmp0)) w)\<lparr>heap := h\<rparr>)
                         tmp src None NPY_UNSAFE_CASTING False None of
                    None \<Rightarrow>
                      PyArray_AssignArray (Suc (Suc depth)) E w dst src wheremask casting
                        preservena None = None
                  | Some (rc, w2) \<Rightarrow>
                      PyArray_AssignArray (Suc (Suc depth)) E w dst src wheremask casting
                        preservena None =
                        (if rc < 0 then Some (-1, emit (EvDecref (array_obj tmp)) w2)
                         else (case assign_broadcast E w2 dst tmp
                                      (if PyArray_HASMASKNA src \<and> \<not> PyArray_HASMASKNA dst
                                       then False else PyArray_HASMASKNA src)
                                      wheremask preservena None of
                                 None \<Rightarrow> None
                               | Some (r, w3) \<Rightarrow>
                                   Some (r, emit (EvDecref (array_obj tmp)) w3)))))"
proof -
  have nd: "PyArray_NDIM src \<ge> 1"
    using assms(1) by (cases "PyArray_DIMS src") (simp_all add: PyArray_NDIM_def)
  have nc: "needs_copy dst src" using assms(6,7) nd by (auto simp: needs_copy_def)
  have hw: "heap (emit ev w) = heap w" for ev by (simp add: emit_def)
  have call: "PyArray_AssignArray (Suc (Suc depth)) E w dst src wheremask casting preservena None =
     (case PyArray_NewLikeArray E dst of
                None \<Rightarrow> Some (-1, PyErr_Set AllocationFailure w)
              | Some tmp0 \<Rightarrow>
                 (case (if PyArray_HASMASKNA src
                        then PyArray_AllocateMaskNA E (heap w) tmp0
                        else Some (tmp0, heap w)) of
                    None \<Rightarrow> Some (-1, emit (EvDecref (array_obj tmp0))
                                        (PyErr_Set AllocationFailure (emit (EvNewLikeArray (array_obj tmp0)) w)))
                  | Some (tmp, h) \<Rightarrow>
                     (case PyArray_AssignArray (Suc depth) E ((emit (EvNewLikeArray (array_obj tmp0)) w)\<lparr>heap := h\<rparr>) tmp src
                             None NPY_UNSAFE_CASTING False None of
                        None \<Rightarrow> None
                      | Some (rc, w2) \<Rightarrow>
                         if rc < 0 then Some (-1, emit (EvDecref (array_obj tmp)) w2)
                         else release True tmp
                                (assign_broadcast E w2 dst tmp (if PyArray_HASMASKNA src \<and> \<not> PyArray_HASMASKNA dst
                                       then False else PyArray_HASMASKNA src) wheremask
                                   preservena None))))"
    using assms(1-5) nc
    by (subst PyArray_AssignArray.simps)
       (simp add: Let_def hw del: PyArray_AssignArray.simps split: option.splits)
  have returns: "\<exists>r. PyArray_AssignArray (Suc depth) E w' tmp src None NPY_UNSAFE_CASTING False None = Some r"
    if "\<not> arrays_overlap src tmp" for tmp w'
    using that by (intro no_copy_returns) (simp add: needs_copy_def)
  show ?thesis
    unfolding call using returns
    by (auto simp: release_def split: option.splits prod.splits simp del: PyArray_AssignArray.simps)
qed

theorem C2_witness:
  "\<exists>rc w2.
     PyArray_AssignArray (Suc 0) ex_env
       ((emit (EvNewLikeArray 5000) (world0 ramp))\<lparr>heap := heap (world0 ramp)\<rparr>)
       ex_tmp (ex_vec 4 4 (- 1)) None NPY_UNSAFE_CASTING False None = Some (rc, w2) \<and>
     PyArray_AssignArray (Suc (Suc 0)) ex_env (world0 ramp) (ex_vec 1 4 1) (ex_vec 4 4 (- 1))
       None NPY_SAFE_CASTING False None =
       (if rc < 0 then Some (-1, emit (EvDecref (array_obj ex_tmp)) w2)
        else (case assign_broadcast ex_env w2 (ex_vec 1 4 1) ex_tmp False None False None of
                None \<Rightarrow> None
              | Some (r, w3) \<Rightarrow> Some (r, emit (EvDecref (array_obj ex_tmp)) w3)))"
proof -
  have h1: "PyArray_NDIM (ex_vec 4 4 (- 1)) \<noteq> 0"
    by (simp add: PyArray_NDIM_def ex_vec_def ex_view_def)
  have h2: "\<not> redundant_copy (ex_vec 1 4 1) (ex_vec 4 4 (- 1))"
    by (simp add: redundant_copy_def ex_vec_def ex_view_def)
  have h3: "PyArray_ISWRITEABLE (ex_vec 1 4 1)"
    by (simp add: ex_vec_def ex_view_def)
  have h4: "PyArray_CanCastTypeTo ex_env (PyArray_DESCR (ex_vec 4 4 (- 1)))
              (PyArray_DESCR (ex_vec 1 4 1)) NPY_SAFE_CASTING"
    by (simp add: ex_env_def)
  have h5: "(if PyArray_HASMASKNA (ex_vec 4 4 (- 1)) \<and> \<not> PyArray_HASMASKNA (ex_vec 1 4 1)
             then PyArray_ContainsNA (heap (world0 ramp)) (ex_vec 4 4 (- 1)) None else 0) = 0"
    by (simp add: ex_vec_def ex_view_def)
  have h6: "arrays_overlap (ex_vec 4 4 (- 1)) (ex_vec 1 4 1)"
    by code_simp
  have h7: "PyArray_NDIM (ex_vec 1 4 1) > 1 \<or>
         (PyArray_NDIM (ex_vec 1 4 1) = 1 \<and>
          entry (PyArray_STRIDES (ex_vec 1 4 1)) 0 *
            entry (PyArray_STRIDES (ex_vec 4 4 (- 1))) (PyArray_NDIM (ex_vec 4 4 (- 1)) - 1) < 0)"
    by (simp add: PyArray_NDIM_def entry_def ex_vec_def ex_view_def)
  have a: "PyArray_NewLikeArray ex_env (ex_vec 1 4 1) = Some ex_tmp"
    by (simp add: ex_env_def ex_tmp_def)
  have b: "\<not> PyArray_HASMASKNA (ex_vec 4 4 (- 1))"
    by (simp add: ex_vec_def ex_view_def)
  have c: "\<not> arrays_overlap (ex_vec 4 4 (- 1)) ex_tmp"
    by code_simp
  have d: "array_obj ex_tmp = 5000"
    by (simp add: ex_tmp_def)
  let ?inner = "PyArray_AssignArray (Suc 0) ex_env
       ((emit (EvNewLikeArray 5000) (world0 ramp))\<lparr>heap := heap (world0 ramp)\<rparr>)
       ex_tmp (ex_vec 4 4 (- 1)) None NPY_UNSAFE_CASTING False None"
  let ?outer = "PyArray_AssignArray (Suc (Suc 0)) ex_env (world0 ramp) (ex_vec 1 4 1)
       (ex_vec 4 4 (- 1)) None NPY_SAFE_CASTING False None"
  note inst = C2_temporary_copy [OF h1 h2 h3 h4 h5 h6 h7, of 0 False]
  have "\<exists>r. ?inner = Some r"
    using inst by (simp add: a b c d del: PyArray_AssignArray.simps)
  then obtain rc w2 where r: "?inner = Some (rc, w2)" by force
  have "?outer =
            (if rc < 0 then Some (-1, emit (EvDecref (array_obj ex_tmp)) w2)
             else (case assign_broadcast ex_env w2 (ex_vec 1 4 1) ex_tmp False None False None of
                     None \<Rightarrow> None
                   | Some (r, w3) \<Rightarrow> Some (r, emit (EvDecref (array_obj ex_tmp)) w3)))"
    using inst by (simp add: a b c d r del: PyArray_AssignArray.simps)
  with r show ?thesis by blast
qed

subsection \<open>The frame of the where-masked assignment\<close>

lemma upto_as_upt: "[0..n - 1] = map int [0..<nat n]"
proof (induction "nat n" arbitrary: n)
  case 0
  then show ?case by simp
next
  case (Suc k)
  then have n: "nat (n - 1) = k" "0 < n" by simp_all
  have "[0..n - 1] = [0..n - 1 - 1] @ [n - 1]" using n(2) by (simp add: upto_rec2)
  also have "[0..n - 1 - 1] = map int [0..<nat (n - 1)]" using Suc(1)[of "n - 1"] n by simp
  finally show ?case using n Suc(2)[symmetric] by simp
qed

lemma dot_Cons: "dot (c # cs) (a # as) = c * a + dot cs as"
  by (simp add: dot_def)

lemma dot_Nil: "dot [] as = 0" "dot cs [] = 0"
  by (simp_all add: dot_def)

lemma loop_as_fold:
  "masked_transfer_loop cast dsz h d ds s ss m ms n isz =
     fold (masked_step cast dsz isz)
          (map (\<lambda>i. (d + int i * ds, s + int i * ss, m + int i * ms)) [0..<n]) h"
proof (induction n arbitrary: h d s m)
  case 0
  then show ?case by simp
next
  case (Suc n)
  have "[0..<Suc n] = 0 # map Suc [0..<n]" by (simp add: upt_conv_Cons map_Suc_upt del: upt_Suc)
  then have "map (\<lambda>i. (d + int i * ds, s + int i * ss, m + int i * ms)) [0..<Suc n]
     = (d, s, m) # map (\<lambda>i. (d + ds + int i * ds, s + ss + int i * ss, m + ms + int i * ms)) [0..<n]"
    by (simp add: algebra_simps del: upt_Suc)
  then show ?case using Suc[of "masked_step cast dsz isz (d, s, m) h" "d + ds" "s + ss" "m + ms"]
    by (simp add: masked_step_def del: upt_Suc)
qed

lemma store_frame:
  "\<not> (d \<le> a \<and> a < d + int (length bs)) \<Longrightarrow> store h d bs a = h a"
  by (auto simp: store_def)

lemma step_frame:
  "masked_step cast dsz isz (d, s, m) h a \<noteq> h a \<Longrightarrow> h m \<noteq> 0 \<and> d \<le> a \<and> a < d + dsz"
proof -
  assume ne: "masked_step cast dsz isz (d, s, m) h a \<noteq> h a"
  then have t: "h m \<noteq> 0" by (auto simp: masked_step_def split: if_splits)
  have "int (length (take (nat dsz) (cast (load h s isz)))) \<le> max 0 dsz" by simp
  moreover have "d \<le> a \<and> a < d + int (length (take (nat dsz) (cast (load h s isz))))"
    using ne t store_frame[of d a "take (nat dsz) (cast (load h s isz))" h]
    by (auto simp: masked_step_def)
  ultimately show ?thesis using t by auto
qed

lemma fold_frame:
  assumes al: "\<forall>(d, s, m) \<in> set ts. \<forall>(d', s', m') \<in> set ts.
                    d \<le> m' \<and> m' < d + dsz \<longrightarrow> d' = d"
    and out: "\<forall>(d, s, m) \<in> set ts. h m \<noteq> 0 \<longrightarrow> \<not> (d \<le> a \<and> a < d + dsz)"
  shows "fold (masked_step cast dsz isz) ts h a = h a"
  using assms
proof (induction ts arbitrary: h)
  case Nil
  then show ?case by simp
next
  case (Cons t ts)
  obtain d s m where t: "t = (d, s, m)" by (cases t)
  define h1 where "h1 = masked_step cast dsz isz (d, s, m) h"
  have a1: "h1 a = h a"
    using step_frame[of cast dsz isz d s m h a] Cons.prems(2) unfolding h1_def t by auto
  have al': "\<forall>(d, s, m) \<in> set ts. \<forall>(d', s', m') \<in> set ts.
                    d \<le> m' \<and> m' < d + dsz \<longrightarrow> d' = d"
    using Cons.prems(1) by auto
  have out': "\<forall>(d', s', m') \<in> set ts. h1 m' \<noteq> 0 \<longrightarrow> \<not> (d' \<le> a \<and> a < d' + dsz)"
  proof (clarify)
    fix d' s' m'
    assume in': "(d', s', m') \<in> set ts" and nz: "h1 m' \<noteq> 0" and a: "d' \<le> a" "a < d' + dsz"
    show False
    proof (cases "h1 m' = h m'")
      case True
      then show False using Cons.prems(2) in' nz a by auto
    next
      case False
      then have w: "h m \<noteq> 0" "d \<le> m'" "m' < d + dsz"
        using step_frame[of cast dsz isz d s m h m'] unfolding h1_def by auto
      then have "d' = d" using Cons.prems(1) in' unfolding t by auto
      then show False using Cons.prems(2) w(1) a unfolding t by auto
    qed
  qed
  have "fold (masked_step cast dsz isz) ts h1 a = h1 a"
    using Cons.IH[OF al' out'] .
  then show ?case using a1 unfolding t h1_def by simp
qed

lemma heap_call_masked:
  "heap (call_masked_stransfer (masked_transfer cast dsz) d ds s ss m ms n isz w) =
     fold (masked_step cast dsz isz)
          (map (\<lambda>i. (d + int i * ds, s + int i * ss, m + int i * ms)) [0..<nat n]) (heap w)"
  by (simp add: call_masked_stransfer_def masked_transfer_def loop_as_fold)

lemma heap_fold_runs:
  "heap (fold (\<lambda>coord. call_masked_stransfer (masked_transfer cast dsz)
                          (d + dot coord dso) ds0 (s + dot coord sso) ss0
                          (m + dot coord mso) ms0 n0 isz) cs w) =
   fold (masked_step cast dsz isz)
        (concat (map (\<lambda>coord. map (\<lambda>i. (d + dot coord dso + int i * ds0,
                                         s + dot coord sso + int i * ss0,
                                         m + dot coord mso + int i * ms0)) [0..<nat n0]) cs))
        (heap w)"
proof (induction cs arbitrary: w)
  case Nil
  then show ?case by simp
next
  case (Cons c cs)
  show ?case
    by (simp only: fold_Cons comp_def Cons.IH heap_call_masked list.map concat.simps fold_append)
qed

lemma view_triples_Cons:
  "view_triples (n0 # outer) d (ds0 # dso) s (ss0 # sso) m (ms0 # mso) =
     concat (map (\<lambda>coord. map (\<lambda>i. (d + dot coord dso + int i * ds0,
                                      s + dot coord sso + int i * ss0,
                                      m + dot coord mso + int i * ms0)) [0..<nat n0])
                 (coords outer))"
  by (simp add: view_triples_def map_concat comp_def dot_Cons upto_as_upt algebra_simps)

lemma heap_run:
  "heap (fold (\<lambda>coord. call_masked_stransfer (masked_transfer cast dsz)
                          (d + dot coord dso) ds0 (s + dot coord sso) ss0
                          (m + dot coord mso) ms0 n0 isz) (coords outer) w) =
   fold (masked_step cast dsz isz)
        (view_triples (n0 # outer) d (ds0 # dso) s (ss0 # sso) m (ms0 # mso)) (heap w)"
  by (simp only: heap_fold_runs view_triples_Cons)

lemma view_triples_1d:
  "set (view_triples [n] d (ds # dso) s (ss # sso) m (ms # mso)) =
     (\<lambda>i. (d + i * ds, s + i * ss, m + i * ms)) ` {0..n - 1}"
  by (auto simp: view_triples_def dot_Cons dot_Nil image_iff)

lemma reversal_triples:
  "set (view_triples [n] (d + (n - 1) * ds) (- ds # dso) (s + (n - 1) * ss) (- ss # sso)
          (m + (n - 1) * ms) (- ms # mso)) =
   set (view_triples [n] d (ds # dso) s (ss # sso) m (ms # mso))"
proof -
  have "(\<lambda>i. (d + (n - 1) * ds + i * - ds, s + (n - 1) * ss + i * - ss, m + (n - 1) * ms + i * - ms)) ` {0..n - 1}
      = (\<lambda>i. (d + i * ds, s + i * ss, m + i * ms)) ` ((\<lambda>i. n - 1 - i) ` {0..n - 1})"
    by (simp add: image_image algebra_simps)
  moreover have "(\<lambda>i. n - 1 - i) ` {0..n - 1} = {0..n - 1}"
  proof (intro equalityI subsetI)
    fix x assume "x \<in> (\<lambda>i. n - 1 - i) ` {0..n - 1}"
    then show "x \<in> {0..n - 1}" by auto
  next
    fix x assume "x \<in> {0..n - 1}"
    then have "n - 1 - x \<in> {0..n - 1}" "x = n - 1 - (n - 1 - x)" by auto
    then show "x \<in> (\<lambda>i. n - 1 - i) ` {0..n - 1}" by blast
  qed
  ultimately show ?thesis by (simp only: view_triples_1d)
qed

lemma heap_PyErr_Set: "heap (PyErr_Set e w) = heap w"
  by (simp add: PyErr_Set_def)

lemma routine_heap:
  assumes res: "\<And>al a b c f na.
      PyArray_GetMaskedDTypeTransferFunction E al a b c src_dtype dst_dtype wheremask_dtype
        = Inr (f, na) \<Longrightarrow> f = masked_transfer cast (elsize dst_dtype)"
    and run: "raw_array_wheremasked_assign_array E w ndim shape dst_dtype dst_data dst_strides
        src_dtype src_data src_strides wheremask_dtype wheremask_data wheremask_strides
        = (rc, w')"
  shows "heap w' = heap w \<or>
         (\<exists>r ts. PyArray_PrepareThreeRawArrayIter E ndim shape dst_data dst_strides
                    src_data src_strides wheremask_data wheremask_strides = Some r \<and>
                  set ts = set (it_triples r) \<and>
                  heap w' = fold (masked_step cast (elsize dst_dtype) (elsize src_dtype)) ts
                              (heap w))"
proof (cases "PyArray_PrepareThreeRawArrayIter E ndim shape dst_data dst_strides
                    src_data src_strides wheremask_data wheremask_strides")
  case None
  then show ?thesis using run
    by (auto simp: raw_array_wheremasked_assign_array_def Let_def heap_PyErr_Set)
next
  case (Some r)
  obtain n0 outer d ds0 dso s ss0 sso m ms0 mso
    where r: "r = ((n0, outer), (d, (ds0, dso)), (s, (ss0, sso)), (m, (ms0, mso)))"
    by (metis prod.collapse)
  define ov where "ov = (it_ndim (n0, outer) = 1 \<and> s < d \<and> s + n0 * ss0 > d)"
  define al where "al = (raw_array_is_aligned E ndim dst_data dst_strides (alignment dst_dtype) \<and>
                    raw_array_is_aligned E ndim src_data src_strides (alignment src_dtype))"
  define R where "R = PyArray_GetMaskedDTypeTransferFunction E al
                      (if ov then - ss0 else ss0) (if ov then - ds0 else ds0)
                      (if ov then - ms0 else ms0) src_dtype dst_dtype wheremask_dtype"
  show ?thesis
  proof (cases R)
    case (Inl e)
    then have "heap w' = heap w" using run Some
      unfolding r R_def ov_def al_def
      by (auto simp: raw_array_wheremasked_assign_array_def Let_def heap_PyErr_Set heap_emit
            neg0_def split: if_splits)
    then show ?thesis by blast
  next
    case (Inr p)
    obtain f na where p: "p = (f, na)" by (cases p)
    have f: "f = masked_transfer cast (elsize dst_dtype)"
      using res[of al _ _ _ f na] Inr unfolding R_def p by blast
    define ts where "ts = view_triples (n0 # outer)
         (if ov then d + (n0 - 1) * ds0 else d) ((if ov then - ds0 else ds0) # dso)
         (if ov then s + (n0 - 1) * ss0 else s) ((if ov then - ss0 else ss0) # sso)
         (if ov then m + (n0 - 1) * ms0 else m) ((if ov then - ms0 else ms0) # mso)"
    have hw: "heap w' = fold (masked_step cast (elsize dst_dtype) (elsize src_dtype)) ts (heap w)"
    proof (cases ov)
      case True
      then show ?thesis using run Some Inr
        unfolding r R_def ov_def[symmetric] al_def[symmetric] p f ts_def
        by (auto simp: raw_array_wheremasked_assign_array_def Let_def heap_emit heap_run
              neg0_def ov_def[symmetric] al_def[symmetric] split: if_splits)
    next
      case False
      then show ?thesis using run Some Inr
        unfolding r R_def ov_def[symmetric] al_def[symmetric] p f ts_def
        by (auto simp: raw_array_wheremasked_assign_array_def Let_def heap_emit heap_run
              neg0_def ov_def[symmetric] al_def[symmetric] split: if_splits)
    qed
    have "set ts = set (it_triples r)"
    proof (cases ov)
      case True
      then have "outer = []" by (simp add: ov_def it_ndim_def)
      then show ?thesis using True unfolding ts_def r it_triples_def
        by (simp add: reversal_triples)
    next
      case False
      then show ?thesis unfolding ts_def r it_triples_def by simp
    qed
    then show ?thesis using hw Some by blast
  qed
qed

text \<open>
  C5, as stated, fails for a destination whose elements share memory. The destination has
  two elements with stride 0, both the byte at 44; the where-mask is true at position 0
  and false at position 1. The call returns 0 and the byte at 44, which is also the element
  at the false position 1, has changed from 44 to 10.
\<close>

theorem C5_counterexample:
  "fst (raw_array_wheremasked_assign_array (spec_raw_env id 1000 8) (world0 mask_heap)
          1 [2] int8 44 [0] int8 10 [1] int8 200 [1]) = 0 \<and>
   mask_heap (200 + 1 * 1) = 0 \<and>
   mask_heap (44 + 1 * 0) = 44 \<and>
   peek [44 + 1 * 0]
     (raw_array_wheremasked_assign_array (spec_raw_env id 1000 8) (world0 mask_heap)
        1 [2] int8 44 [0] int8 10 [1] int8 200 [1]) = [10]"
  by code_simp

text \<open>
  C5, amended. The where-masked routine is run with a preparer that keeps the elements of
  the iteration (the addresses of destination, source and where-mask element at every
  position) and with the masked transfer callable of the specification, and no where-mask
  byte lies inside a destination element other than the element that it masks (or one at
  the same address). Then, whatever the routine returns, every byte outside the destination
  elements at the positions where the where-mask was true before the call is unchanged;
  so a destination element at a false position keeps its bytes when it shares none with a
  destination element at a true position.
\<close>

theorem C5_wheremasked_frame:
  assumes prep: "\<forall>r. PyArray_PrepareThreeRawArrayIter E ndim shape dst_data dst_strides
                       src_data src_strides wheremask_data wheremask_strides = Some r \<longrightarrow>
                     set (it_triples r) =
                     set (view_triples shape dst_data dst_strides src_data src_strides
                            wheremask_data wheremask_strides)"
    and res: "\<forall>al a b c f na.
                PyArray_GetMaskedDTypeTransferFunction E al a b c src_dtype dst_dtype
                  wheremask_dtype = Inr (f, na) \<longrightarrow>
                f = masked_transfer cast (elsize dst_dtype)"
    and sep: "\<forall>(d, s, m) \<in> set (view_triples shape dst_data dst_strides src_data src_strides
                                   wheremask_data wheremask_strides).
              \<forall>(d', s', m') \<in> set (view_triples shape dst_data dst_strides src_data src_strides
                                      wheremask_data wheremask_strides).
                d \<le> m' \<and> m' < d + elsize dst_dtype \<longrightarrow> d' = d"
    and run: "raw_array_wheremasked_assign_array E w ndim shape dst_dtype dst_data dst_strides
                src_dtype src_data src_strides wheremask_dtype wheremask_data wheremask_strides
              = (rc, w')"
  shows "(\<forall>a. (\<forall>(d, s, m) \<in> set (view_triples shape dst_data dst_strides src_data src_strides
                                      wheremask_data wheremask_strides).
                 heap w m \<noteq> 0 \<longrightarrow> \<not> (d \<le> a \<and> a < d + elsize dst_dtype))
              \<longrightarrow> heap w' a = heap w a) \<and>
         (\<forall>(d, s, m) \<in> set (view_triples shape dst_data dst_strides src_data src_strides
                                 wheremask_data wheremask_strides).
            heap w m = 0 \<and>
            (\<forall>(d', s', m') \<in> set (view_triples shape dst_data dst_strides src_data src_strides
                                      wheremask_data wheremask_strides).
               heap w m' \<noteq> 0 \<longrightarrow> d' + elsize dst_dtype \<le> d \<or> d + elsize dst_dtype \<le> d')
            \<longrightarrow> load (heap w') d (elsize dst_dtype) = load (heap w) d (elsize dst_dtype))"
proof -
  let ?T = "set (view_triples shape dst_data dst_strides src_data src_strides
                   wheremask_data wheremask_strides)"
  have frame: "heap w' a = heap w a"
    if out: "\<forall>(d, s, m) \<in> ?T. heap w m \<noteq> 0 \<longrightarrow> \<not> (d \<le> a \<and> a < d + elsize dst_dtype)" for a
  proof -
    from routine_heap[OF res[rule_format] run] show ?thesis
    proof
      assume "heap w' = heap w"
      then show ?thesis by simp
    next
      assume "\<exists>r ts. PyArray_PrepareThreeRawArrayIter E ndim shape dst_data dst_strides
                    src_data src_strides wheremask_data wheremask_strides = Some r \<and>
                  set ts = set (it_triples r) \<and>
                  heap w' = fold (masked_step cast (elsize dst_dtype) (elsize src_dtype)) ts
                              (heap w)"
      then obtain r ts where r: "PyArray_PrepareThreeRawArrayIter E ndim shape dst_data
                    dst_strides src_data src_strides wheremask_data wheremask_strides = Some r"
        and ts: "set ts = set (it_triples r)"
        and h: "heap w' = fold (masked_step cast (elsize dst_dtype) (elsize src_dtype)) ts
                              (heap w)"
        by blast
      have T: "set ts = ?T" using ts prep[rule_format, OF r] by simp
      show ?thesis unfolding h
        by (rule fold_frame) (use sep out T in simp_all)
    qed
  qed
  have elem: "load (heap w') d (elsize dst_dtype) = load (heap w) d (elsize dst_dtype)"
    if disj: "\<forall>(d', s', m') \<in> ?T. heap w m' \<noteq> 0 \<longrightarrow>
                d' + elsize dst_dtype \<le> d \<or> d + elsize dst_dtype \<le> d'" for d
  proof -
    have "heap w' (d + i) = heap w (d + i)" if "i \<in> set [0..elsize dst_dtype - 1]" for i
    proof (rule frame, clarify)
      fix d' s' m'
      assume "(d', s', m') \<in> ?T" "heap w m' \<noteq> 0" "d' \<le> d + i" "d + i < d' + elsize dst_dtype"
      moreover have "0 \<le> i" "i < elsize dst_dtype" using that by simp_all
      ultimately show False using disj by fastforce
    qed
    then show ?thesis by (simp add: load_def)
  qed
  show ?thesis using frame elem by blast
qed

theorem C5_witness:
  "heap (snd (raw_array_wheremasked_assign_array (spec_raw_env id 1000 8) (world0 mask_heap)
                1 [2] int8 44 [1] int8 10 [1] int8 200 [1])) 45 = mask_heap 45"
proof -
  let ?E = "spec_raw_env id 1000 8"
  let ?T = "set (view_triples [2] 44 [1] 10 [1] 200 [1])"
  have prep: "\<forall>r. PyArray_PrepareThreeRawArrayIter ?E 1 [2] 44 [1] 10 [1] 200 [1] = Some r \<longrightarrow>
                set (it_triples r) = ?T"
    by (auto simp: spec_raw_env_def spec_PrepareThree_def dimvec_of_def it_triples_def)
  have res: "\<forall>al a b c f na.
                PyArray_GetMaskedDTypeTransferFunction ?E al a b c int8 int8 int8 = Inr (f, na) \<longrightarrow>
                f = masked_transfer id (elsize int8)"
    by (simp add: spec_raw_env_def)
  have sep: "\<forall>(d, s, m) \<in> ?T. \<forall>(d', s', m') \<in> ?T. d \<le> m' \<and> m' < d + elsize int8 \<longrightarrow> d' = d"
    by code_simp
  obtain rc w' where run:
    "raw_array_wheremasked_assign_array ?E (world0 mask_heap) 1 [2] int8 44 [1] int8 10 [1]
       int8 200 [1] = (rc, w')"
    by (cases "raw_array_wheremasked_assign_array ?E (world0 mask_heap) 1 [2] int8 44 [1]
                 int8 10 [1] int8 200 [1]")
  have out: "\<forall>(d, s, m) \<in> ?T. heap (world0 mask_heap) m \<noteq> 0 \<longrightarrow> \<not> (d \<le> 45 \<and> 45 < d + elsize int8)"
    by code_simp
  from C5_wheremasked_frame [OF prep res sep run] out
  have "heap w' 45 = heap (world0 mask_heap) 45" by blast
  then show ?thesis using run by (simp add: world0_def)
qed

end
